theory Spec2Isabelle
  imports Main "HOL-Library.Word"
begin

section \<open>The handshake state machine of VncServerProtocol.cpp\<close>

text \<open>
  A shallow embedding of \<^verbatim>\<open>src/service/src/VncServerProtocol.cpp\<close>. The object
  \<^verbatim>\<open>VncServerProtocol\<close> becomes a record that is passed in and returned; every member
  function returning \<^verbatim>\<open>bool\<close> becomes a function returning the boolean together with
  the updated object. The socket, the per-connection client object, the two managers and
  the variant-message codec are declared outside this file; what the code needs from them
  is kept in records of their own.
\<close>

subsection \<open>Bytes and the constants of rfbproto.h\<close>

type_synonym byte = "8 word"

text \<open>
  Modelled from the spec: the constants of \<^verbatim>\<open>rfb/rfbproto.h\<close>, which is not under
  \<^verbatim>\<open>src/\<close>. The version banner is the fixed-length text \<^verbatim>\<open>RFB 003.008\n\<close>, so
  \<^verbatim>\<open>sz_rfbProtocolVersionMsg\<close> is 12 and \<^verbatim>\<open>rfbProtocolVersionFormat\<close> is
  \<^verbatim>\<open>"RFB %03d.%03d\n"\<close>; the authentication success code \<^verbatim>\<open>rfbVncAuthOK\<close> is 0.
\<close>

definition sz_rfbProtocolVersionMsg :: nat where
  "sz_rfbProtocolVersionMsg = 12"

definition rfbVncAuthOK :: "32 word" where
  "rfbVncAuthOK = 0"

text \<open>\<^verbatim>\<open>qToBigEndian<uint32_t>\<close> followed by a write of the four bytes of the result.\<close>

definition qToBigEndian32 :: "32 word \<Rightarrow> byte list" where
  "qToBigEndian32 w =
     [ucast (drop_bit 24 w), ucast (drop_bit 16 w), ucast (drop_bit 8 w), ucast w]"

subsection \<open>sprintf and sscanf on the version format\<close>

definition digit_byte :: "nat \<Rightarrow> byte" where
  "digit_byte d = of_nat (48 + d mod 10)"

fun decimal :: "nat \<Rightarrow> byte list" where
  "decimal n = (if n < 10 then [digit_byte n] else decimal (n div 10) @ [digit_byte (n mod 10)])"

declare decimal.simps [simp del]

text \<open>The conversion \<^verbatim>\<open>%03d\<close> of printf for a non-negative argument: zero-padded to width 3.\<close>

definition printf_03d :: "nat \<Rightarrow> byte list" where
  "printf_03d n = replicate (3 - length (decimal n)) 48 @ decimal n"

text \<open>\<^verbatim>\<open>sprintf( protocol, rfbProtocolVersionFormat, major, minor )\<close>: R F B space, major, dot, minor, newline.\<close>

definition sprintf_rfbProtocolVersionFormat :: "nat \<Rightarrow> nat \<Rightarrow> byte list" where
  "sprintf_rfbProtocolVersionFormat major minor =
     [82, 70, 66, 32] @ printf_03d major @ [46] @ printf_03d minor @ [10]"

definition isspace :: "byte \<Rightarrow> bool" where
  "isspace b = (b = 32 \<or> b = 9 \<or> b = 10 \<or> b = 11 \<or> b = 12 \<or> b = 13)"

definition isdigit :: "byte \<Rightarrow> bool" where
  "isdigit b = (48 \<le> b \<and> b \<le> 57)"

text \<open>A C string ends at its first NUL byte.\<close>

definition c_string :: "byte list \<Rightarrow> byte list" where
  "c_string bs = takeWhile (\<lambda>b. b \<noteq> 0) bs"

text \<open>An ordinary character of a scanf format: the next input byte must be that character.\<close>

definition scan_char :: "byte \<Rightarrow> byte list \<Rightarrow> byte list option" where
  "scan_char c s = (case s of [] \<Rightarrow> None | b # r \<Rightarrow> if b = c then Some r else None)"

text \<open>
  The conversion \<^verbatim>\<open>%d\<close> of scanf with a maximum field width: white space is skipped, an
  optional sign counts towards the width, and at least one digit is needed. The result is
  the rest of the input after the field, or \<open>None\<close> when nothing was converted. The
  converted value itself is not kept: the source never uses it.
\<close>

definition scan_d :: "nat \<Rightarrow> byte list \<Rightarrow> byte list option" where
  "scan_d width s =
     (let s1 = dropWhile isspace s;
          sgn = (case s1 of [] \<Rightarrow> 0 | b # _ \<Rightarrow> if b = 43 \<or> b = 45 then 1 else (0::nat));
          ds = takeWhile isdigit (take (width - sgn) (drop sgn s1))
      in if ds = [] then None else Some (drop (sgn + length ds) s1))"

text \<open>
  \<^verbatim>\<open>sscanf( protocol, rfbProtocolVersionFormat, &major, &minor )\<close>: the number of items
  assigned. The source only tests the result against 2, so the result EOF (input ends
  before the first conversion) is given as 0 here.
\<close>

definition sscanf_rfbProtocolVersionFormat :: "byte list \<Rightarrow> nat" where
  "sscanf_rfbProtocolVersionFormat protocol =
     (case scan_char 82 (c_string protocol) of None \<Rightarrow> 0 | Some s1 \<Rightarrow>
       (case scan_char 70 s1 of None \<Rightarrow> 0 | Some s2 \<Rightarrow>
         (case scan_char 66 s2 of None \<Rightarrow> 0 | Some s3 \<Rightarrow>
           (case scan_d 3 (dropWhile isspace s3) of None \<Rightarrow> 0 | Some s4 \<Rightarrow>
             (case scan_char 46 s4 of None \<Rightarrow> 1 | Some s5 \<Rightarrow>
               (case scan_d 3 s5 of None \<Rightarrow> 1 | Some s6 \<Rightarrow> 2))))))"

subsection \<open>The socket\<close>

text \<open>
  \<^verbatim>\<open>QTcpSocket\<close> as the code uses it: the bytes received and not yet read, the bytes
  written so far, whether the device is open, and the peer's address. A closed device
  offers no bytes, returns none from a read and accepts none in a write.
\<close>

record socket =
  inbuf :: "byte list"
  outbuf :: "byte list"
  isOpen :: bool
  peerAddress :: string

definition sock_available :: "socket \<Rightarrow> byte list" where
  "sock_available k = (if isOpen k then inbuf k else [])"

definition bytesAvailable :: "socket \<Rightarrow> nat" where
  "bytesAvailable k = length (sock_available k)"

definition sock_read :: "nat \<Rightarrow> socket \<Rightarrow> byte list \<times> socket" where
  "sock_read n k =
     (if isOpen k then (take n (inbuf k), k\<lparr>inbuf := drop n (inbuf k)\<rparr>) else ([], k))"

definition sock_write :: "byte list \<Rightarrow> socket \<Rightarrow> socket" where
  "sock_write bs k = (if isOpen k then k\<lparr>outbuf := outbuf k @ bs\<rparr> else k)"

definition sock_close :: "socket \<Rightarrow> socket" where
  "sock_close k = k\<lparr>isOpen := False\<rparr>"

subsection \<open>The client object\<close>

datatype State =
  Disconnected | Protocol | SecurityInit | AuthenticationTypes | Authenticating
  | AccessControl | FramebufferInit | Running | Close

datatype AuthState = AuthNotStarted | AuthInProgress | AuthFinishedSuccess | AuthFinishedFail

datatype AccessControlState =
  AccessControlInit | AccessControlWaiting | AccessControlPending
  | AccessControlSuccessful | AccessControlFailed

text \<open>
  Modelled from the spec: the type \<^verbatim>\<open>RfbVeyonAuth::Type\<close> is declared outside
  \<^verbatim>\<open>src/\<close>; the code names only its value \<^verbatim>\<open>None\<close>, every other identifier is a number.
\<close>

datatype RfbVeyonAuthType = RfbVeyonAuthNone | RfbVeyonAuthOther nat

text \<open>
  \<^verbatim>\<open>VncServerClient\<close>: the fields this file reads or sets. \<open>clientId\<close> stands for the
  address of the object, which \<^verbatim>\<open>finishAccessControl\<close> compares.
\<close>

record VncServerClient =
  clientId :: nat
  protocolState :: State
  authState :: AuthState
  accessControlState :: AccessControlState
  authType :: RfbVeyonAuthType
  username :: string
  hostAddress :: string

subsection \<open>Variant messages and the collaborators\<close>

datatype variant = VInvalid | VInt int | VAuthType RfbVeyonAuthType | VString string

type_synonym message = "variant list"

text \<open>
  Modelled from the spec: \<^verbatim>\<open>VariantArrayMessage::read\<close> (not under \<^verbatim>\<open>src/\<close>) takes
  the next value of the ordered sequence; past the end there is only an invalid value.
\<close>

definition msg_read :: "message \<Rightarrow> variant \<times> message" where
  "msg_read m = (case m of [] \<Rightarrow> (VInvalid, []) | v # vs \<Rightarrow> (v, vs))"

text \<open>
  Everything else the code takes from outside is a parameter:
  \<^item> \<open>rfbSecTypeVeyon\<close>, \<open>sz_rfbClientInitMsg\<close>: constants of the protocol headers;
  \<^item> \<open>supportedAuthTypes\<close>, \<open>processAuthenticationMessage\<close>: the server authentication
    manager; processing a message gives the client's new authentication state and the
    bytes the manager writes to the socket;
  \<^item> \<open>addClient\<close>: the server access control manager; it gives the client's access control
    state after the call;
  \<^item> \<open>isReadyForReceive\<close>, \<open>receive\<close>, \<open>send\<close>: the wire format of variant messages, on
    the bytes the socket offers; \<open>receive\<close> gives the decoded message (\<open>None\<close> when it
    reports failure) and the number of bytes it read, \<open>send\<close> its result and the bytes
    it writes;
  \<^item> \<open>toAuthType\<close>, \<open>toString\<close>: the conversions \<^verbatim>\<open>value<RfbVeyonAuth::Type>()\<close> and
    \<^verbatim>\<open>toString()\<close> of \<^verbatim>\<open>QVariant\<close>.
\<close>

record collaborators =
  rfbSecTypeVeyon :: byte
  sz_rfbClientInitMsg :: nat
  supportedAuthTypes :: "RfbVeyonAuthType list"
  processAuthenticationMessage :: "VncServerClient \<Rightarrow> message \<Rightarrow> AuthState \<times> byte list"
  addClient :: "VncServerClient \<Rightarrow> AccessControlState"
  isReadyForReceive :: "byte list \<Rightarrow> bool"
  receive :: "byte list \<Rightarrow> message option \<times> nat"
  send :: "message \<Rightarrow> bool \<times> byte list"
  toAuthType :: "variant \<Rightarrow> RfbVeyonAuthType"
  toString :: "variant \<Rightarrow> string"

definition msg_isReadyForReceive :: "collaborators \<Rightarrow> socket \<Rightarrow> bool" where
  "msg_isReadyForReceive env k = isReadyForReceive env (sock_available k)"

definition msg_receive :: "collaborators \<Rightarrow> socket \<Rightarrow> message option \<times> socket" where
  "msg_receive env k =
     (let (r, n) = receive env (sock_available k) in (r, snd (sock_read n k)))"

definition msg_send :: "collaborators \<Rightarrow> message \<Rightarrow> socket \<Rightarrow> bool \<times> socket" where
  "msg_send env m k = (let (ok, bs) = send env m in (ok, sock_write bs k))"

subsection \<open>VncServerProtocol\<close>

record VncServerProtocol =
  m_socket :: socket
  m_client :: VncServerClient
  m_serverInitMessage :: "byte list"

definition state :: "VncServerProtocol \<Rightarrow> State" where
  "state p = protocolState (m_client p)"

definition setState :: "State \<Rightarrow> VncServerProtocol \<Rightarrow> VncServerProtocol" where
  "setState st p = p\<lparr>m_client := (m_client p)\<lparr>protocolState := st\<rparr>\<rparr>"

definition start :: "VncServerProtocol \<Rightarrow> VncServerProtocol" where
  "start p =
     (if state p = Disconnected
      then setState Protocol
             (p\<lparr>m_socket := sock_write
                   (take sz_rfbProtocolVersionMsg (sprintf_rfbProtocolVersionFormat 3 8))
                   (m_socket p)\<rparr>)
      else p)"

definition sendSecurityTypes :: "collaborators \<Rightarrow> VncServerProtocol \<Rightarrow> bool \<times> VncServerProtocol" where
  "sendSecurityTypes env p =
     (True, p\<lparr>m_socket := sock_write [1, rfbSecTypeVeyon env] (m_socket p)\<rparr>)"

definition readProtocol :: "collaborators \<Rightarrow> VncServerProtocol \<Rightarrow> bool \<times> VncServerProtocol" where
  "readProtocol env p =
     (if bytesAvailable (m_socket p) = sz_rfbProtocolVersionMsg
      then (let (protocol, k) = sock_read sz_rfbProtocolVersionMsg (m_socket p)
            in if sscanf_rfbProtocolVersionFormat protocol \<noteq> 2
               then (False, p\<lparr>m_socket := sock_close k\<rparr>)
               else sendSecurityTypes env (setState SecurityInit (p\<lparr>m_socket := k\<rparr>)))
      else (False, p))"

text \<open>
  The message that \<^verbatim>\<open>sendAuthenticationTypes\<close> assembles: the number of supported
  authentication types, then each of them.
\<close>

definition authenticationTypesMessage :: "collaborators \<Rightarrow> message" where
  "authenticationTypesMessage env =
     VInt (int (length (supportedAuthTypes env))) # map VAuthType (supportedAuthTypes env)"

definition sendAuthenticationTypes :: "collaborators \<Rightarrow> VncServerProtocol \<Rightarrow> bool \<times> VncServerProtocol" where
  "sendAuthenticationTypes env p =
     (let (ok, k) = msg_send env (authenticationTypesMessage env) (m_socket p)
      in (ok, p\<lparr>m_socket := k\<rparr>))"

definition receiveSecurityTypeResponse :: "collaborators \<Rightarrow> VncServerProtocol \<Rightarrow> bool \<times> VncServerProtocol" where
  "receiveSecurityTypeResponse env p =
     (if bytesAvailable (m_socket p) \<ge> 1
      then (let (chosen, k) = sock_read 1 (m_socket p)
            in if length chosen \<noteq> 1 \<or> chosen \<noteq> [rfbSecTypeVeyon env]
               then (False, p\<lparr>m_socket := sock_close k\<rparr>)
               else sendAuthenticationTypes env (setState AuthenticationTypes (p\<lparr>m_socket := k\<rparr>)))
      else (False, p))"

definition processAuthentication :: "collaborators \<Rightarrow> message \<Rightarrow> VncServerProtocol \<Rightarrow> bool \<times> VncServerProtocol" where
  "processAuthentication env msg p =
     (let (a, written) = processAuthenticationMessage env (m_client p) msg;
          p1 = p\<lparr>m_client := (m_client p)\<lparr>authState := a\<rparr>,
                 m_socket := sock_write written (m_socket p)\<rparr>
      in case a of
           AuthFinishedSuccess \<Rightarrow>
             (True, setState AccessControl
                      (p1\<lparr>m_socket := sock_write (qToBigEndian32 rfbVncAuthOK) (m_socket p1)\<rparr>))
         | AuthFinishedFail \<Rightarrow> (False, p1\<lparr>m_socket := sock_close (m_socket p1)\<rparr>)
         | _ \<Rightarrow> (False, p1))"

definition receiveAuthenticationTypeResponse :: "collaborators \<Rightarrow> VncServerProtocol \<Rightarrow> bool \<times> VncServerProtocol" where
  "receiveAuthenticationTypeResponse env p =
     (if msg_isReadyForReceive env (m_socket p)
      then (case msg_receive env (m_socket p) of
              (None, k) \<Rightarrow> (False, p\<lparr>m_socket := k\<rparr>)
            | (Some msg, k) \<Rightarrow>
                (let (v1, msg1) = msg_read msg;
                     chosenAuthType = toAuthType env v1
                 in if chosenAuthType \<notin> set (supportedAuthTypes env)
                    then (False, p\<lparr>m_socket := sock_close k\<rparr>)
                    else if chosenAuthType = RfbVeyonAuthNone
                    then (True, setState AccessControl (p\<lparr>m_socket := k\<rparr>))
                    else (let (v2, msg2) = msg_read msg1;
                              c = (m_client p)\<lparr>authType := chosenAuthType,
                                                username := toString env v2,
                                                hostAddress := peerAddress k\<rparr>;
                              p1 = setState Authenticating (p\<lparr>m_socket := k, m_client := c\<rparr>);
                              p2 = p1\<lparr>m_socket := snd (msg_send env [] (m_socket p1))\<rparr>
                          in (False, snd (processAuthentication env [] p2)))))
      else (False, p))"

definition receiveAuthenticationMessage :: "collaborators \<Rightarrow> VncServerProtocol \<Rightarrow> bool \<times> VncServerProtocol" where
  "receiveAuthenticationMessage env p =
     (if msg_isReadyForReceive env (m_socket p)
      then (case msg_receive env (m_socket p) of
              (None, k) \<Rightarrow> (False, p\<lparr>m_socket := k\<rparr>)
            | (Some msg, k) \<Rightarrow> processAuthentication env msg (p\<lparr>m_socket := k\<rparr>))
      else (False, p))"

definition processAccessControl :: "collaborators \<Rightarrow> VncServerProtocol \<Rightarrow> bool \<times> VncServerProtocol" where
  "processAccessControl env p =
     (let p1 = (if accessControlState (m_client p) = AccessControlInit
                   \<or> accessControlState (m_client p) = AccessControlWaiting
                then p\<lparr>m_client := (m_client p)\<lparr>accessControlState := addClient env (m_client p)\<rparr>\<rparr>
                else p)
      in case accessControlState (m_client p1) of
           AccessControlSuccessful \<Rightarrow> (True, setState FramebufferInit p1)
         | AccessControlPending \<Rightarrow> (False, p1)
         | AccessControlWaiting \<Rightarrow> (False, p1)
         | _ \<Rightarrow> (False, p1\<lparr>m_socket := sock_close (m_socket p1)\<rparr>))"

definition processFramebufferInit :: "collaborators \<Rightarrow> VncServerProtocol \<Rightarrow> bool \<times> VncServerProtocol" where
  "processFramebufferInit env p =
     (if bytesAvailable (m_socket p) \<ge> sz_rfbClientInitMsg env \<and> m_serverInitMessage p \<noteq> []
      then (let k = snd (sock_read (sz_rfbClientInitMsg env) (m_socket p))
            in (True, setState Running
                        (p\<lparr>m_socket := sock_write (m_serverInitMessage p) k\<rparr>)))
      else (False, p))"

definition read :: "collaborators \<Rightarrow> VncServerProtocol \<Rightarrow> bool \<times> VncServerProtocol" where
  "read env p =
     (case state p of
        Protocol \<Rightarrow> readProtocol env p
      | SecurityInit \<Rightarrow> receiveSecurityTypeResponse env p
      | AuthenticationTypes \<Rightarrow> receiveAuthenticationTypeResponse env p
      | Authenticating \<Rightarrow> receiveAuthenticationMessage env p
      | AccessControl \<Rightarrow> processAccessControl env p
      | FramebufferInit \<Rightarrow> processFramebufferInit env p
      | Close \<Rightarrow> (False, p\<lparr>m_socket := sock_close (m_socket p)\<rparr>)
      | _ \<Rightarrow> (False, p))"

text \<open>
  The loop \<^verbatim>\<open>while( read() ) { }\<close> of \<^verbatim>\<open>finishAccessControl\<close>. It ends because a call
  of \<open>read\<close> that returns true has moved the protocol state forward in the order below,
  and never beyond \<open>Running\<close>.
\<close>

definition phaseRank :: "State \<Rightarrow> nat" where
  "phaseRank st =
     (case st of
        Disconnected \<Rightarrow> 0 | Protocol \<Rightarrow> 1 | SecurityInit \<Rightarrow> 2 | AuthenticationTypes \<Rightarrow> 3
      | Authenticating \<Rightarrow> 4 | AccessControl \<Rightarrow> 5 | FramebufferInit \<Rightarrow> 6 | Running \<Rightarrow> 7
      | Close \<Rightarrow> 8)"

function finishAccessControl_loop :: "collaborators \<Rightarrow> VncServerProtocol \<Rightarrow> VncServerProtocol" where
  "finishAccessControl_loop env p =
     (let (progress, p') = read env p
      in if progress then finishAccessControl_loop env p' else p')"
  by pat_completeness auto
termination
proof (relation "measure (\<lambda>(env, p). 8 - phaseRank (state p))")
  show "wf (measure (\<lambda>(env, p). 8 - phaseRank (state p)))"
    by simp
next
  fix env p x progress p'
  assume "x = read env p" "(progress, p') = x" "progress"
  then have r: "read env p = (True, p')"
    by simp
  have "phaseRank (state p) < phaseRank (state p') \<and> phaseRank (state p') \<le> 7"
    using r
    by (auto simp: read_def readProtocol_def sendSecurityTypes_def
        receiveSecurityTypeResponse_def sendAuthenticationTypes_def msg_send_def
        receiveAuthenticationTypeResponse_def receiveAuthenticationMessage_def
        processAuthentication_def processAccessControl_def processFramebufferInit_def
        setState_def state_def phaseRank_def Let_def
        split: State.splits if_splits prod.splits option.splits AuthState.splits
          AccessControlState.splits)
  then have "8 - phaseRank (state p') < 8 - phaseRank (state p)"
    by arith
  then show "((env, p'), (env, p)) \<in> measure (\<lambda>(env, p). 8 - phaseRank (state p))"
    by simp
qed

declare finishAccessControl_loop.simps [simp del]

text \<open>
  The slot connected to \<^verbatim>\<open>accessControlFinished\<close>; \<open>client\<close> is the identity of the
  client the signal carries.
\<close>

definition finishAccessControl :: "collaborators \<Rightarrow> nat \<Rightarrow> VncServerProtocol \<Rightarrow> VncServerProtocol" where
  "finishAccessControl env client p =
     (if client = clientId (m_client p)
      then (let (progress, p1) = processAccessControl env p
            in if progress then finishAccessControl_loop env p1 else p1)
      else p)"

text \<open>A caller that calls \<open>read\<close> a given number of times, whatever it returns.\<close>

fun readRepeatedly :: "nat \<Rightarrow> collaborators \<Rightarrow> VncServerProtocol \<Rightarrow> bool list \<times> VncServerProtocol" where
  "readRepeatedly 0 env p = ([], p)"
| "readRepeatedly (Suc n) env p =
     (let (r, p1) = read env p; (rs, p2) = readRepeatedly n env p1 in (r # rs, p2))"

subsection \<open>What the client has sent\<close>

text \<open>
  The condition \<^verbatim>\<open>message.isReadyForReceive() && message.receive()\<close> of the two
  receiving functions, and the value \<^verbatim>\<open>message.read().value<RfbVeyonAuth::Type>()\<close>
  that \<^verbatim>\<open>receiveAuthenticationTypeResponse\<close> takes from the message, as functions of
  the connection: the message a call of \<open>read\<close> will receive, and the authentication
  type it selects.
\<close>

definition receivedMessage :: "collaborators \<Rightarrow> VncServerProtocol \<Rightarrow> message option" where
  "receivedMessage env p =
     (if msg_isReadyForReceive env (m_socket p) then fst (msg_receive env (m_socket p)) else None)"

definition selectedAuthType :: "collaborators \<Rightarrow> VncServerProtocol \<Rightarrow> RfbVeyonAuthType option" where
  "selectedAuthType env p =
     (case receivedMessage env p of
        None \<Rightarrow> None
      | Some msg \<Rightarrow> Some (toAuthType env (fst (msg_read msg))))"

text \<open>
  The client object as \<^verbatim>\<open>receiveAuthenticationTypeResponse\<close> has set it when it hands
  the first, empty message to the authentication manager: authentication type, user name
  and host address recorded, protocol state \<open>Authenticating\<close>.
\<close>

definition clientAfterSelection :: "collaborators \<Rightarrow> VncServerProtocol \<Rightarrow> message \<Rightarrow> VncServerClient" where
  "clientAfterSelection env p msg =
     (m_client p)\<lparr>authType := toAuthType env (fst (msg_read msg)),
                  username := toString env (fst (msg_read (snd (msg_read msg)))),
                  hostAddress := peerAddress (m_socket p),
                  protocolState := Authenticating\<rparr>"

subsection \<open>An instance of the collaborators\<close>

text \<open>
  A small instance on which the theorems below are exercised: messages are a length byte
  followed by that many value bytes, authentication type 2 decides at once from the host
  address, every other type answers the empty message with a challenge and accepts the
  value 42, and access control denies one host and otherwise moves a new client to
  pending.
\<close>

definition exampleIsReady :: "byte list \<Rightarrow> bool" where
  "exampleIsReady bs = (case bs of [] \<Rightarrow> False | n # rest \<Rightarrow> unat n \<le> length rest)"

definition exampleReceive :: "byte list \<Rightarrow> message option \<times> nat" where
  "exampleReceive bs =
     (case bs of
        [] \<Rightarrow> (None, 0)
      | n # rest \<Rightarrow>
          if length rest < unat n then (None, 1 + length rest)
          else (Some (map (\<lambda>b. VInt (uint b)) (take (unat n) rest)), 1 + unat n))"

definition exampleSend :: "message \<Rightarrow> bool \<times> byte list" where
  "exampleSend m =
     (True, of_nat (length m)
            # map (\<lambda>v. case v of VInt i \<Rightarrow> of_int i
                          | VAuthType RfbVeyonAuthNone \<Rightarrow> 1
                          | VAuthType (RfbVeyonAuthOther n) \<Rightarrow> of_nat n
                          | _ \<Rightarrow> 0) m)"

definition exampleToAuthType :: "variant \<Rightarrow> RfbVeyonAuthType" where
  "exampleToAuthType v =
     (case v of VAuthType t \<Rightarrow> t
      | VInt i \<Rightarrow> if i = 1 then RfbVeyonAuthNone else RfbVeyonAuthOther (nat i)
      | _ \<Rightarrow> RfbVeyonAuthOther 0)"

definition exampleToString :: "variant \<Rightarrow> string" where
  "exampleToString v = (case v of VString s \<Rightarrow> s | _ \<Rightarrow> [])"

definition exampleAuth :: "VncServerClient \<Rightarrow> message \<Rightarrow> AuthState \<times> byte list" where
  "exampleAuth c m =
     (if authType c = RfbVeyonAuthOther 2
      then (if hostAddress c = ''10.0.0.1'' then (AuthFinishedSuccess, [])
            else (AuthFinishedFail, []))
      else (case m of [] \<Rightarrow> (AuthInProgress, [1, 99])
            | v # _ \<Rightarrow> if v = VInt 42 then (AuthFinishedSuccess, []) else (AuthFinishedFail, [])))"

definition exampleAddClient :: "VncServerClient \<Rightarrow> AccessControlState" where
  "exampleAddClient c =
     (if hostAddress c = ''10.0.0.66'' then AccessControlFailed
      else if accessControlState c = AccessControlInit then AccessControlPending
      else accessControlState c)"

definition exampleEnv :: collaborators where
  "exampleEnv =
     \<lparr>rfbSecTypeVeyon = 40, sz_rfbClientInitMsg = 1,
      supportedAuthTypes = [RfbVeyonAuthNone, RfbVeyonAuthOther 2, RfbVeyonAuthOther 4],
      processAuthenticationMessage = exampleAuth, addClient = exampleAddClient,
      isReadyForReceive = exampleIsReady, receive = exampleReceive, send = exampleSend,
      toAuthType = exampleToAuthType, toString = exampleToString\<rparr>"

definition exampleSocket :: "byte list \<Rightarrow> socket" where
  "exampleSocket bs = \<lparr>inbuf = bs, outbuf = [], isOpen = True, peerAddress = ''10.0.0.7''\<rparr>"

definition exampleClient :: "State \<Rightarrow> VncServerClient" where
  "exampleClient st =
     \<lparr>clientId = 1, protocolState = st, authState = AuthNotStarted,
      accessControlState = AccessControlInit, authType = RfbVeyonAuthNone,
      username = [], hostAddress = []\<rparr>"

definition exampleConnection :: "State \<Rightarrow> byte list \<Rightarrow> VncServerProtocol" where
  "exampleConnection st bs =
     \<lparr>m_socket = exampleSocket bs, m_client = exampleClient st, m_serverInitMessage = [0, 1, 2]\<rparr>"

section \<open>Properties\<close>

subsection \<open>Unfolding and evaluation\<close>

lemmas example_defs = exampleEnv_def exampleConnection_def exampleSocket_def exampleClient_def
  exampleIsReady_def exampleReceive_def exampleSend_def exampleToAuthType_def
  exampleToString_def exampleAuth_def exampleAddClient_def

lemmas socket_defs = sock_available_def bytesAvailable_def sock_read_def sock_write_def
  sock_close_def

lemmas message_defs = msg_read_def msg_isReadyForReceive_def msg_receive_def msg_send_def

lemmas handler_defs = read_def readProtocol_def sendSecurityTypes_def
  receiveSecurityTypeResponse_def sendAuthenticationTypes_def
  receiveAuthenticationTypeResponse_def receiveAuthenticationMessage_def
  processAuthentication_def processAccessControl_def processFramebufferInit_def
  setState_def state_def

lemmas scanf_defs = sscanf_rfbProtocolVersionFormat_def scan_char_def scan_d_def c_string_def
  isspace_def isdigit_def

lemma banner_bytes:
  "take sz_rfbProtocolVersionMsg (sprintf_rfbProtocolVersionFormat 3 8)
     = [82, 70, 66, 32, 48, 48, 51, 46, 48, 48, 56, 10]"
  by code_simp

lemma banner_parses:
  "sscanf_rfbProtocolVersionFormat [82, 70, 66, 32, 48, 48, 51, 46, 48, 48, 56, 10] = 2"
  by (simp add: scanf_defs)

lemma authOK_bytes: "qToBigEndian32 rfbVncAuthOK = [0, 0, 0, 0]"
  by (simp add: qToBigEndian32_def rfbVncAuthOK_def)

subsection \<open>The version banner\<close>

text \<open>
  C10. In the state \<open>Protocol\<close>, when more bytes are buffered than the version banner is
  long, \<open>read\<close> returns false and leaves the connection as it was, the buffered bytes
  included: \<^verbatim>\<open>readProtocol\<close> asks for equality with the banner length.
\<close>

theorem readProtocol_longer_input:
  assumes "state p = Protocol" and "sz_rfbProtocolVersionMsg < bytesAvailable (m_socket p)"
  shows "read env p = (False, p)"
  using assms by (simp add: read_def readProtocol_def)

theorem readProtocol_longer_input_witness:
  "state (exampleConnection Protocol [82, 70, 66, 32, 48, 48, 51, 46, 48, 48, 56, 10, 40]) = Protocol
   \<and> sz_rfbProtocolVersionMsg
       < bytesAvailable (m_socket (exampleConnection Protocol [82, 70, 66, 32, 48, 48, 51, 46, 48, 48, 56, 10, 40]))
   \<and> read exampleEnv (exampleConnection Protocol [82, 70, 66, 32, 48, 48, 51, 46, 48, 48, 56, 10, 40])
       = (False, exampleConnection Protocol [82, 70, 66, 32, 48, 48, 51, 46, 48, 48, 56, 10, 40])"
proof -
  let ?p = "exampleConnection Protocol [82, 70, 66, 32, 48, 48, 51, 46, 48, 48, 56, 10, 40]"
  have h1: "state ?p = Protocol"
    by (simp add: state_def example_defs)
  have h2: "sz_rfbProtocolVersionMsg < bytesAvailable (m_socket ?p)"
    by (simp add: socket_defs example_defs sz_rfbProtocolVersionMsg_def)
  from readProtocol_longer_input [OF h1 h2, of exampleEnv] h1 h2 show ?thesis
    by blast
qed

subsection \<open>Helper facts\<close>

lemma readRepeatedly_stuck:
  "read env p = (False, p) \<Longrightarrow> readRepeatedly n env p = (replicate n False, p)"
  by (induction n) simp_all

lemma loop_False: "read env p = (False, p') \<Longrightarrow> finishAccessControl_loop env p = p'"
  by (subst finishAccessControl_loop.simps) simp

lemma loop_True:
  "read env p = (True, p') \<Longrightarrow> finishAccessControl_loop env p = finishAccessControl_loop env p'"
  by (subst finishAccessControl_loop.simps) simp

lemma read_Running: "state p = Running \<Longrightarrow> read env p = (False, p)"
  by (simp add: read_def)

lemma loop_FramebufferInit_stops:
  assumes "state q = FramebufferInit"
  shows "\<not> fst (read env (finishAccessControl_loop env q))"
proof (cases "fst (read env q)")
  case True
  with assms have "state (snd (read env q)) = Running"
    by (auto simp: read_def processFramebufferInit_def setState_def state_def Let_def
        split: if_splits)
  then have stop: "read env (snd (read env q)) = (False, snd (read env q))"
    by (rule read_Running)
  from True have "read env q = (True, snd (read env q))"
    by (simp add: prod_eq_iff)
  then have "finishAccessControl_loop env q = finishAccessControl_loop env (snd (read env q))"
    by (rule loop_True)
  also have "\<dots> = snd (read env q)"
    using stop by (rule loop_False)
  finally show ?thesis
    using stop by simp
next
  case False
  with assms have same: "read env q = (False, q)"
    by (auto simp: read_def processFramebufferInit_def split: if_splits)
  then have "finishAccessControl_loop env q = q"
    by (rule loop_False)
  with same show ?thesis
    by simp
qed

lemma read_SecurityInit_closed:
  "state p = SecurityInit \<Longrightarrow> \<not> isOpen (m_socket p) \<Longrightarrow> read env p = (False, p)"
  by (simp add: read_def receiveSecurityTypeResponse_def socket_defs)

subsection \<open>start\<close>

text \<open>
  C9. \<open>start\<close> in the state \<open>Disconnected\<close> writes the twelve bytes of the banner
  \<^verbatim>\<open>RFB 003.008\n\<close> and sets the state to \<open>Protocol\<close>; in every other state it changes
  nothing. Hence a second call has no effect: \<open>start (start p) = start p\<close>.
\<close>

theorem start_once:
  "(state p = Disconnected \<longrightarrow>
      start p = setState Protocol
                  (p\<lparr>m_socket := sock_write [82, 70, 66, 32, 48, 48, 51, 46, 48, 48, 56, 10]
                                   (m_socket p)\<rparr>)
      \<and> state (start p) = Protocol)
   \<and> (state p \<noteq> Disconnected \<longrightarrow> start p = p)
   \<and> start (start p) = start p
   \<and> length (take sz_rfbProtocolVersionMsg (sprintf_rfbProtocolVersionFormat 3 8))
       = sz_rfbProtocolVersionMsg"
proof -
  have a: "state (start p) = Protocol" if "state p = Disconnected"
    using that by (simp add: start_def state_def setState_def)
  have b: "start p = p" if "state p \<noteq> Disconnected" for p
    using that by (simp add: start_def)
  have c: "start (start p) = start p"
    by (cases "state p = Disconnected") (simp_all add: a b)
  have d: "length (take sz_rfbProtocolVersionMsg (sprintf_rfbProtocolVersionFormat 3 8))
       = sz_rfbProtocolVersionMsg"
    by (simp add: banner_bytes) (simp add: sz_rfbProtocolVersionMsg_def)
  show ?thesis
    using a b c d by (simp add: start_def banner_bytes)
qed

theorem start_once_witness:
  "state (exampleConnection Disconnected []) = Disconnected
   \<and> start (exampleConnection Disconnected [])
       = setState Protocol
           ((exampleConnection Disconnected [])
              \<lparr>m_socket := sock_write [82, 70, 66, 32, 48, 48, 51, 46, 48, 48, 56, 10]
                               (m_socket (exampleConnection Disconnected []))\<rparr>)
   \<and> state (start (exampleConnection Disconnected [])) = Protocol
   \<and> state (exampleConnection Running []) \<noteq> Disconnected
   \<and> start (exampleConnection Running []) = exampleConnection Running []
   \<and> outbuf (m_socket (start (start (exampleConnection Disconnected []))))
       = [82, 70, 66, 32, 48, 48, 51, 46, 48, 48, 56, 10]"
proof -
  have h1: "state (exampleConnection Disconnected []) = Disconnected"
    by (simp add: state_def example_defs)
  have h2: "state (exampleConnection Running []) \<noteq> Disconnected"
    by (simp add: state_def example_defs)
  from start_once [of "exampleConnection Disconnected []"] h1
  have c1: "start (exampleConnection Disconnected [])
       = setState Protocol
           ((exampleConnection Disconnected [])
              \<lparr>m_socket := sock_write [82, 70, 66, 32, 48, 48, 51, 46, 48, 48, 56, 10]
                               (m_socket (exampleConnection Disconnected []))\<rparr>)"
    and c2: "state (start (exampleConnection Disconnected [])) = Protocol"
    and c3: "start (start (exampleConnection Disconnected [])) = start (exampleConnection Disconnected [])"
    by blast+
  from start_once [of "exampleConnection Running []"] h2
  have c4: "start (exampleConnection Running []) = exampleConnection Running []"
    by blast
  have c5: "outbuf (m_socket (start (start (exampleConnection Disconnected []))))
       = [82, 70, 66, 32, 48, 48, 51, 46, 48, 48, 56, 10]"
    unfolding c3 unfolding c1 by (simp add: setState_def socket_defs example_defs)
  from h1 h2 c1 c2 c4 c5 show ?thesis
    by blast
qed

subsection \<open>Waiting for the access control decision\<close>

text \<open>
  C4. In the state \<open>AccessControl\<close>, while the access control state of the client is
  pending, or is waiting and stays so when the client is handed to the access control
  manager again, \<open>read\<close> returns false and leaves the connection exactly as it was: the
  socket stays open and the protocol state stays \<open>AccessControl\<close>. The same holds for
  any number of calls in a row.
\<close>

theorem read_AccessControl_undecided:
  assumes "state p = AccessControl"
    and "accessControlState (m_client p) = AccessControlPending
         \<or> accessControlState (m_client p) = AccessControlWaiting
           \<and> addClient env (m_client p) = AccessControlWaiting"
  shows "read env p = (False, p) \<and> readRepeatedly n env p = (replicate n False, p)"
proof -
  have "read env p = (False, p)"
    using assms by (auto simp: read_def processAccessControl_def)
  then show ?thesis
    by (simp add: readRepeatedly_stuck)
qed

theorem read_AccessControl_undecided_witness:
  "state ((exampleConnection AccessControl [0])
            \<lparr>m_client := (exampleClient AccessControl)\<lparr>accessControlState := AccessControlWaiting\<rparr>\<rparr>)
     = AccessControl
   \<and> accessControlState (m_client ((exampleConnection AccessControl [0])
            \<lparr>m_client := (exampleClient AccessControl)\<lparr>accessControlState := AccessControlWaiting\<rparr>\<rparr>))
     = AccessControlWaiting
   \<and> addClient exampleEnv (m_client ((exampleConnection AccessControl [0])
            \<lparr>m_client := (exampleClient AccessControl)\<lparr>accessControlState := AccessControlWaiting\<rparr>\<rparr>))
     = AccessControlWaiting
   \<and> read exampleEnv ((exampleConnection AccessControl [0])
            \<lparr>m_client := (exampleClient AccessControl)\<lparr>accessControlState := AccessControlWaiting\<rparr>\<rparr>)
     = (False, (exampleConnection AccessControl [0])
            \<lparr>m_client := (exampleClient AccessControl)\<lparr>accessControlState := AccessControlWaiting\<rparr>\<rparr>)
   \<and> readRepeatedly 3 exampleEnv ((exampleConnection AccessControl [0])
            \<lparr>m_client := (exampleClient AccessControl)\<lparr>accessControlState := AccessControlWaiting\<rparr>\<rparr>)
     = (replicate 3 False, (exampleConnection AccessControl [0])
            \<lparr>m_client := (exampleClient AccessControl)\<lparr>accessControlState := AccessControlWaiting\<rparr>\<rparr>)
   \<and> state ((exampleConnection AccessControl [0])
            \<lparr>m_client := (exampleClient AccessControl)\<lparr>accessControlState := AccessControlPending\<rparr>\<rparr>)
     = AccessControl
   \<and> accessControlState (m_client ((exampleConnection AccessControl [0])
            \<lparr>m_client := (exampleClient AccessControl)\<lparr>accessControlState := AccessControlPending\<rparr>\<rparr>))
     = AccessControlPending
   \<and> readRepeatedly 5 exampleEnv ((exampleConnection AccessControl [0])
            \<lparr>m_client := (exampleClient AccessControl)\<lparr>accessControlState := AccessControlPending\<rparr>\<rparr>)
     = (replicate 5 False, (exampleConnection AccessControl [0])
            \<lparr>m_client := (exampleClient AccessControl)\<lparr>accessControlState := AccessControlPending\<rparr>\<rparr>)"
proof -
  let ?p = "(exampleConnection AccessControl [0])
            \<lparr>m_client := (exampleClient AccessControl)\<lparr>accessControlState := AccessControlWaiting\<rparr>\<rparr>"
  let ?q = "(exampleConnection AccessControl [0])
            \<lparr>m_client := (exampleClient AccessControl)\<lparr>accessControlState := AccessControlPending\<rparr>\<rparr>"
  have h1: "state ?p = AccessControl"
    by (simp add: state_def example_defs)
  have h2: "accessControlState (m_client ?p) = AccessControlWaiting"
    by simp
  have h3: "addClient exampleEnv (m_client ?p) = AccessControlWaiting"
    by (simp add: example_defs)
  from h2 h3 have h: "accessControlState (m_client ?p) = AccessControlPending
         \<or> accessControlState (m_client ?p) = AccessControlWaiting
           \<and> addClient exampleEnv (m_client ?p) = AccessControlWaiting"
    by blast
  have g1: "state ?q = AccessControl"
    by (simp add: state_def example_defs)
  have g2: "accessControlState (m_client ?q) = AccessControlPending"
    by simp
  from g2 have g: "accessControlState (m_client ?q) = AccessControlPending
         \<or> accessControlState (m_client ?q) = AccessControlWaiting
           \<and> addClient exampleEnv (m_client ?q) = AccessControlWaiting"
    by blast
  from read_AccessControl_undecided [OF h1 h, of 3]
    read_AccessControl_undecided [OF g1 g, of 5] h1 h2 h3 g1 g2
  show ?thesis
    by blast
qed

subsection \<open>A wrong security type\<close>

text \<open>
  C6. In the state \<open>SecurityInit\<close> with an open socket, when the first buffered byte is
  not the advertised security type, \<open>read\<close> takes that one byte, closes the socket and
  returns false. From then on, whatever bytes arrive later, any number of calls of
  \<open>read\<close> return false and leave the connection, its unread bytes included, as it is.
\<close>

theorem read_SecurityInit_wrong_type:
  assumes "state p = SecurityInit" and "isOpen (m_socket p)"
    and "inbuf (m_socket p) = b # rest" and "b \<noteq> rfbSecTypeVeyon env"
  shows "read env p = (False, p\<lparr>m_socket := (m_socket p)\<lparr>inbuf := rest, isOpen := False\<rparr>\<rparr>)
    \<and> readRepeatedly n env (p\<lparr>m_socket := (m_socket p)\<lparr>inbuf := rest @ later, isOpen := False\<rparr>\<rparr>)
        = (replicate n False,
           p\<lparr>m_socket := (m_socket p)\<lparr>inbuf := rest @ later, isOpen := False\<rparr>\<rparr>)"
proof -
  have "read env p = (False, p\<lparr>m_socket := (m_socket p)\<lparr>inbuf := rest, isOpen := False\<rparr>\<rparr>)"
    using assms by (simp add: read_def receiveSecurityTypeResponse_def socket_defs)
  moreover have "read env (p\<lparr>m_socket := (m_socket p)\<lparr>inbuf := rest @ later, isOpen := False\<rparr>\<rparr>)
      = (False, p\<lparr>m_socket := (m_socket p)\<lparr>inbuf := rest @ later, isOpen := False\<rparr>\<rparr>)"
    using assms(1) by (intro read_SecurityInit_closed) (simp_all add: state_def)
  ultimately show ?thesis
    by (simp add: readRepeatedly_stuck)
qed

theorem read_SecurityInit_wrong_type_witness:
  "state (exampleConnection SecurityInit [2, 9, 9]) = SecurityInit
   \<and> isOpen (m_socket (exampleConnection SecurityInit [2, 9, 9]))
   \<and> inbuf (m_socket (exampleConnection SecurityInit [2, 9, 9])) = 2 # [9, 9]
   \<and> 2 \<noteq> rfbSecTypeVeyon exampleEnv
   \<and> read exampleEnv (exampleConnection SecurityInit [2, 9, 9])
       = (False, (exampleConnection SecurityInit [2, 9, 9])
                   \<lparr>m_socket := (m_socket (exampleConnection SecurityInit [2, 9, 9]))
                                  \<lparr>inbuf := [9, 9], isOpen := False\<rparr>\<rparr>)
   \<and> readRepeatedly 2 exampleEnv
         ((exampleConnection SecurityInit [2, 9, 9])
            \<lparr>m_socket := (m_socket (exampleConnection SecurityInit [2, 9, 9]))
                           \<lparr>inbuf := [9, 9] @ [7], isOpen := False\<rparr>\<rparr>)
       = (replicate 2 False,
          (exampleConnection SecurityInit [2, 9, 9])
            \<lparr>m_socket := (m_socket (exampleConnection SecurityInit [2, 9, 9]))
                           \<lparr>inbuf := [9, 9] @ [7], isOpen := False\<rparr>\<rparr>)"
proof -
  let ?p = "exampleConnection SecurityInit [2, 9, 9]"
  have h1: "state ?p = SecurityInit"
    by (simp add: state_def example_defs)
  have h2: "isOpen (m_socket ?p)"
    by (simp add: example_defs)
  have h3: "inbuf (m_socket ?p) = 2 # [9, 9]"
    by (simp add: example_defs)
  have h4: "2 \<noteq> rfbSecTypeVeyon exampleEnv"
    by (simp add: example_defs)
  from read_SecurityInit_wrong_type [OF h1 h2 h3 h4, of 2 "[7]"] h1 h2 h3 h4 show ?thesis
    by blast
qed

subsection \<open>Authentication messages\<close>

text \<open>
  C7. In the state \<open>Authenticating\<close>, when a complete variant message is received and
  handed to the authentication manager: if the authentication state is then
  \<open>AuthFinishedSuccess\<close>, the four bytes of \<open>rfbVncAuthOK\<close> in big-endian order, which are
  0 0 0 0, are written after whatever the manager wrote, the state becomes
  \<open>AccessControl\<close> and \<open>read\<close> returns true; if it is \<open>AuthFinishedFail\<close>, the socket is
  closed and \<open>read\<close> returns false; in every other authentication state \<open>read\<close> returns
  false and the state stays \<open>Authenticating\<close>.
\<close>

theorem read_Authenticating_message:
  assumes "state p = Authenticating" and "isOpen (m_socket p)"
    and "isReadyForReceive env (inbuf (m_socket p))"
    and "receive env (inbuf (m_socket p)) = (Some msg, n)"
    and "processAuthenticationMessage env (m_client p) msg = (a, written)"
  shows "(a = AuthFinishedSuccess \<longrightarrow>
            fst (read env p)
            \<and> state (snd (read env p)) = AccessControl
            \<and> outbuf (m_socket (snd (read env p)))
                = outbuf (m_socket p) @ written @ qToBigEndian32 rfbVncAuthOK
            \<and> isOpen (m_socket (snd (read env p))))
       \<and> (a = AuthFinishedFail \<longrightarrow>
            \<not> fst (read env p)
            \<and> \<not> isOpen (m_socket (snd (read env p)))
            \<and> state (snd (read env p)) = Authenticating)
       \<and> (a \<noteq> AuthFinishedSuccess \<and> a \<noteq> AuthFinishedFail \<longrightarrow>
            \<not> fst (read env p)
            \<and> state (snd (read env p)) = Authenticating
            \<and> isOpen (m_socket (snd (read env p))))
       \<and> qToBigEndian32 rfbVncAuthOK = [0, 0, 0, 0]"
  using assms
  by (cases a)
    (simp_all add: read_def receiveAuthenticationMessage_def processAuthentication_def
      message_defs socket_defs setState_def state_def authOK_bytes)

theorem read_Authenticating_message_witness:
  "state (exampleConnection Authenticating [1, 42]) = Authenticating
   \<and> isOpen (m_socket (exampleConnection Authenticating [1, 42]))
   \<and> isReadyForReceive exampleEnv (inbuf (m_socket (exampleConnection Authenticating [1, 42])))
   \<and> receive exampleEnv (inbuf (m_socket (exampleConnection Authenticating [1, 42])))
       = (Some [VInt 42], 2)
   \<and> processAuthenticationMessage exampleEnv (m_client (exampleConnection Authenticating [1, 42]))
         [VInt 42] = (AuthFinishedSuccess, [])
   \<and> fst (read exampleEnv (exampleConnection Authenticating [1, 42]))
   \<and> state (snd (read exampleEnv (exampleConnection Authenticating [1, 42]))) = AccessControl
   \<and> outbuf (m_socket (snd (read exampleEnv (exampleConnection Authenticating [1, 42]))))
       = outbuf (m_socket (exampleConnection Authenticating [1, 42])) @ []
           @ qToBigEndian32 rfbVncAuthOK
   \<and> processAuthenticationMessage exampleEnv (m_client (exampleConnection Authenticating [1, 41]))
         [VInt 41] = (AuthFinishedFail, [])
   \<and> \<not> fst (read exampleEnv (exampleConnection Authenticating [1, 41]))
   \<and> \<not> isOpen (m_socket (snd (read exampleEnv (exampleConnection Authenticating [1, 41]))))
   \<and> state (snd (read exampleEnv (exampleConnection Authenticating [1, 41]))) = Authenticating
   \<and> processAuthenticationMessage exampleEnv (m_client (exampleConnection Authenticating [0]))
         [] = (AuthInProgress, [1, 99])
   \<and> \<not> fst (read exampleEnv (exampleConnection Authenticating [0]))
   \<and> state (snd (read exampleEnv (exampleConnection Authenticating [0]))) = Authenticating
   \<and> isOpen (m_socket (snd (read exampleEnv (exampleConnection Authenticating [0]))))"
proof -
  let ?p = "exampleConnection Authenticating [1, 42]"
  let ?q = "exampleConnection Authenticating [1, 41]"
  let ?r = "exampleConnection Authenticating [0]"
  have p1: "state ?p = Authenticating" and p2: "isOpen (m_socket ?p)"
    and p3: "isReadyForReceive exampleEnv (inbuf (m_socket ?p))"
    and p4: "receive exampleEnv (inbuf (m_socket ?p)) = (Some [VInt 42], 2)"
    and p5: "processAuthenticationMessage exampleEnv (m_client ?p) [VInt 42]
               = (AuthFinishedSuccess, [])"
    by (simp_all add: state_def example_defs)
  have q1: "state ?q = Authenticating" and q2: "isOpen (m_socket ?q)"
    and q3: "isReadyForReceive exampleEnv (inbuf (m_socket ?q))"
    and q4: "receive exampleEnv (inbuf (m_socket ?q)) = (Some [VInt 41], 2)"
    and q5: "processAuthenticationMessage exampleEnv (m_client ?q) [VInt 41]
               = (AuthFinishedFail, [])"
    by (simp_all add: state_def example_defs)
  have r1: "state ?r = Authenticating" and r2: "isOpen (m_socket ?r)"
    and r3: "isReadyForReceive exampleEnv (inbuf (m_socket ?r))"
    and r4: "receive exampleEnv (inbuf (m_socket ?r)) = (Some [], 1)"
    and r5: "processAuthenticationMessage exampleEnv (m_client ?r) []
               = (AuthInProgress, [1, 99])"
    by (simp_all add: state_def example_defs)
  note read_Authenticating_message [OF p1 p2 p3 p4 p5]
    and read_Authenticating_message [OF q1 q2 q3 q4 q5]
    and read_Authenticating_message [OF r1 r2 r3 r4 r5]
  with p1 p2 p3 p4 p5 q5 r5 show ?thesis
    by simp
qed

subsection \<open>The access control decision arrives\<close>

text \<open>
  C2. When \<open>finishAccessControl\<close> is called for this connection's client and the access
  control state of the client is successful, the state is set to \<open>FramebufferInit\<close> and
  \<open>read\<close> is called until it returns false. So if the socket is open, a whole client
  init message is buffered and the server init message is not empty, the call ends in
  the state \<open>Running\<close>, with the client init message taken from the socket and the server
  init message written to it as it is. If the client init message is not yet there, or
  the server init message is empty, the call ends in the state \<open>FramebufferInit\<close>.
\<close>

theorem finishAccessControl_successful:
  assumes "client = clientId (m_client p)"
    and "accessControlState (m_client p) = AccessControlSuccessful"
  shows "finishAccessControl env client p = finishAccessControl_loop env (setState FramebufferInit p)
    \<and> (isOpen (m_socket p) \<and> sz_rfbClientInitMsg env \<le> length (inbuf (m_socket p))
          \<and> m_serverInitMessage p \<noteq> [] \<longrightarrow>
        finishAccessControl env client p
          = setState Running
              (p\<lparr>m_socket := (m_socket p)
                    \<lparr>inbuf := drop (sz_rfbClientInitMsg env) (inbuf (m_socket p)),
                     outbuf := outbuf (m_socket p) @ m_serverInitMessage p\<rparr>\<rparr>))
    \<and> (bytesAvailable (m_socket p) < sz_rfbClientInitMsg env \<or> m_serverInitMessage p = [] \<longrightarrow>
        finishAccessControl env client p = setState FramebufferInit p)
    \<and> \<not> fst (read env (finishAccessControl env client p))"
proof -
  let ?q = "setState FramebufferInit p"
  have start: "finishAccessControl env client p = finishAccessControl_loop env ?q"
    using assms by (simp add: finishAccessControl_def processAccessControl_def)
  have ready: "finishAccessControl_loop env ?q
      = setState Running
              (p\<lparr>m_socket := (m_socket p)
                    \<lparr>inbuf := drop (sz_rfbClientInitMsg env) (inbuf (m_socket p)),
                     outbuf := outbuf (m_socket p) @ m_serverInitMessage p\<rparr>\<rparr>)"
    (is "_ = ?r")
    if "isOpen (m_socket p)" "sz_rfbClientInitMsg env \<le> length (inbuf (m_socket p))"
      "m_serverInitMessage p \<noteq> []"
  proof -
    have "read env ?q = (True, ?r)"
      using that
      by (simp add: read_def processFramebufferInit_def socket_defs setState_def state_def)
    then have "finishAccessControl_loop env ?q = finishAccessControl_loop env ?r"
      by (rule loop_True)
    also have "\<dots> = ?r"
      by (rule loop_False, rule read_Running) (simp add: state_def setState_def)
    finally show ?thesis .
  qed
  have wait: "finishAccessControl_loop env ?q = ?q"
    if "bytesAvailable (m_socket p) < sz_rfbClientInitMsg env \<or> m_serverInitMessage p = []"
  proof (rule loop_False)
    show "read env ?q = (False, ?q)"
      using that by (auto simp: read_def processFramebufferInit_def setState_def state_def)
  qed
  have "state ?q = FramebufferInit"
    by (simp add: state_def setState_def)
  then have "\<not> fst (read env (finishAccessControl_loop env ?q))"
    by (rule loop_FramebufferInit_stops)
  then show ?thesis
    using start ready wait by simp
qed

theorem finishAccessControl_successful_witness:
  "(1::nat) = clientId (m_client ((exampleConnection AccessControl [0, 3])
              \<lparr>m_client := (exampleClient AccessControl)
                             \<lparr>accessControlState := AccessControlSuccessful\<rparr>\<rparr>))
   \<and> accessControlState (m_client ((exampleConnection AccessControl [0, 3])
              \<lparr>m_client := (exampleClient AccessControl)
                             \<lparr>accessControlState := AccessControlSuccessful\<rparr>\<rparr>))
       = AccessControlSuccessful
   \<and> isOpen (m_socket ((exampleConnection AccessControl [0, 3])
              \<lparr>m_client := (exampleClient AccessControl)
                             \<lparr>accessControlState := AccessControlSuccessful\<rparr>\<rparr>))
   \<and> sz_rfbClientInitMsg exampleEnv
       \<le> length (inbuf (m_socket ((exampleConnection AccessControl [0, 3])
              \<lparr>m_client := (exampleClient AccessControl)
                             \<lparr>accessControlState := AccessControlSuccessful\<rparr>\<rparr>)))
   \<and> m_serverInitMessage ((exampleConnection AccessControl [0, 3])
              \<lparr>m_client := (exampleClient AccessControl)
                             \<lparr>accessControlState := AccessControlSuccessful\<rparr>\<rparr>) \<noteq> []
   \<and> state (finishAccessControl exampleEnv 1 ((exampleConnection AccessControl [0, 3])
              \<lparr>m_client := (exampleClient AccessControl)
                             \<lparr>accessControlState := AccessControlSuccessful\<rparr>\<rparr>)) = Running
   \<and> inbuf (m_socket (finishAccessControl exampleEnv 1 ((exampleConnection AccessControl [0, 3])
              \<lparr>m_client := (exampleClient AccessControl)
                             \<lparr>accessControlState := AccessControlSuccessful\<rparr>\<rparr>))) = [3]
   \<and> outbuf (m_socket (finishAccessControl exampleEnv 1 ((exampleConnection AccessControl [0, 3])
              \<lparr>m_client := (exampleClient AccessControl)
                             \<lparr>accessControlState := AccessControlSuccessful\<rparr>\<rparr>))) = [0, 1, 2]"
proof -
  let ?p = "(exampleConnection AccessControl [0, 3])
              \<lparr>m_client := (exampleClient AccessControl)
                             \<lparr>accessControlState := AccessControlSuccessful\<rparr>\<rparr>"
  have h1: "(1::nat) = clientId (m_client ?p)"
    and h2: "accessControlState (m_client ?p) = AccessControlSuccessful"
    and h3: "isOpen (m_socket ?p)"
    and h4: "sz_rfbClientInitMsg exampleEnv \<le> length (inbuf (m_socket ?p))"
    and h5: "m_serverInitMessage ?p \<noteq> []"
    by (simp_all add: example_defs)
  from finishAccessControl_successful [OF h1 h2, of exampleEnv] h3 h4 h5
  have "finishAccessControl exampleEnv 1 ?p
          = setState Running
              (?p\<lparr>m_socket := (m_socket ?p)
                    \<lparr>inbuf := drop (sz_rfbClientInitMsg exampleEnv) (inbuf (m_socket ?p)),
                     outbuf := outbuf (m_socket ?p) @ m_serverInitMessage ?p\<rparr>\<rparr>)"
    by blast
  then have "state (finishAccessControl exampleEnv 1 ?p) = Running"
    and "inbuf (m_socket (finishAccessControl exampleEnv 1 ?p)) = [3]"
    and "outbuf (m_socket (finishAccessControl exampleEnv 1 ?p)) = [0, 1, 2]"
    by (simp_all add: state_def setState_def example_defs)
  with h1 h2 h3 h4 h5 show ?thesis
    by blast
qed

subsection \<open>The result of read and the protocol state\<close>

lemma read_True_moves:
  "fst (read env p) \<Longrightarrow> state (snd (read env p)) \<noteq> state p"
  by (auto simp: handler_defs msg_send_def Let_def
      split: State.splits if_splits prod.splits option.splits AuthState.splits
        AccessControlState.splits)

lemma read_moves_True:
  assumes "state (snd (read env p)) \<noteq> state p"
    and "state p = AuthenticationTypes \<longrightarrow> selectedAuthType env p = Some RfbVeyonAuthNone"
    and "state p = SecurityInit \<longrightarrow> fst (send env (authenticationTypesMessage env))"
  shows "fst (read env p)"
  using assms
  by (auto simp: handler_defs msg_send_def Let_def selectedAuthType_def receivedMessage_def
      authenticationTypesMessage_def
      split: State.splits if_splits prod.splits option.splits AuthState.splits
        AccessControlState.splits)

lemma read_message_phases_wait:
  assumes "state p = AuthenticationTypes \<or> state p = Authenticating"
    and "\<not> msg_isReadyForReceive env (m_socket p)"
  shows "read env p = (False, p)"
  using assms
  by (auto simp: read_def receiveAuthenticationTypeResponse_def receiveAuthenticationMessage_def)

text \<open>
  C1. \<open>read\<close> is to return true exactly when the call has changed the protocol state, and
  in particular when it receives the choice of an advertised authentication type other
  than \<open>None\<close> in the state \<open>AuthenticationTypes\<close>. The code does not do so on that path:
  \<^verbatim>\<open>receiveAuthenticationTypeResponse\<close> records the choice, sets the state to
  \<open>Authenticating\<close>, sends the acknowledgement, hands the empty message to
  \<^verbatim>\<open>processAuthentication\<close>, drops its result and returns false. So \<open>read\<close> returns false
  although the state has changed: to \<open>AccessControl\<close>, with the success code written,
  exactly when the authentication manager answers \<open>AuthFinishedSuccess\<close> at once, and to
  \<open>Authenticating\<close> otherwise.
\<close>

theorem read_AuthenticationTypes_selected:
  assumes "state p = AuthenticationTypes"
    and "receivedMessage env p = Some msg"
    and "toAuthType env (fst (msg_read msg)) \<in> set (supportedAuthTypes env)"
    and "toAuthType env (fst (msg_read msg)) \<noteq> RfbVeyonAuthNone"
    and "processAuthenticationMessage env (clientAfterSelection env p msg) [] = (a, written)"
  shows "\<not> fst (read env p)
    \<and> state (snd (read env p)) \<noteq> state p
    \<and> state (snd (read env p))
        = (if a = AuthFinishedSuccess then AccessControl else Authenticating)
    \<and> m_client (snd (read env p))
        = (clientAfterSelection env p msg)
            \<lparr>authState := a,
             protocolState := (if a = AuthFinishedSuccess then AccessControl else Authenticating)\<rparr>
    \<and> isOpen (m_socket (snd (read env p))) = (isOpen (m_socket p) \<and> a \<noteq> AuthFinishedFail)
    \<and> outbuf (m_socket (snd (read env p)))
        = (if isOpen (m_socket p)
           then outbuf (m_socket p) @ snd (send env []) @ written
                  @ (if a = AuthFinishedSuccess then qToBigEndian32 rfbVncAuthOK else [])
           else outbuf (m_socket p))"
proof -
  from assms(2) obtain n where ready: "msg_isReadyForReceive env (m_socket p)"
    and rcv: "receive env (sock_available (m_socket p)) = (Some msg, n)"
    by (auto simp: receivedMessage_def msg_receive_def split: if_splits prod.splits)
  show ?thesis
    using assms(1,3,4,5) ready rcv
    by (cases a)
      (simp_all add: read_def receiveAuthenticationTypeResponse_def processAuthentication_def
        clientAfterSelection_def msg_receive_def msg_send_def socket_defs setState_def state_def
        Let_def case_prod_unfold)
qed

theorem read_AuthenticationTypes_selected_witness:
  "state (exampleConnection AuthenticationTypes [1, 4]) = AuthenticationTypes
   \<and> receivedMessage exampleEnv (exampleConnection AuthenticationTypes [1, 4]) = Some [VInt 4]
   \<and> toAuthType exampleEnv (fst (msg_read [VInt 4])) \<in> set (supportedAuthTypes exampleEnv)
   \<and> toAuthType exampleEnv (fst (msg_read [VInt 4])) \<noteq> RfbVeyonAuthNone
   \<and> processAuthenticationMessage exampleEnv
        (clientAfterSelection exampleEnv (exampleConnection AuthenticationTypes [1, 4]) [VInt 4]) []
       = (AuthInProgress, [1, 99])
   \<and> \<not> fst (read exampleEnv (exampleConnection AuthenticationTypes [1, 4]))
   \<and> state (snd (read exampleEnv (exampleConnection AuthenticationTypes [1, 4]))) = Authenticating
   \<and> state ((exampleConnection AuthenticationTypes [1, 2])
              \<lparr>m_socket := (exampleSocket [1, 2])\<lparr>peerAddress := ''10.0.0.1''\<rparr>\<rparr>)
       = AuthenticationTypes
   \<and> receivedMessage exampleEnv ((exampleConnection AuthenticationTypes [1, 2])
              \<lparr>m_socket := (exampleSocket [1, 2])\<lparr>peerAddress := ''10.0.0.1''\<rparr>\<rparr>)
       = Some [VInt 2]
   \<and> toAuthType exampleEnv (fst (msg_read [VInt 2])) \<in> set (supportedAuthTypes exampleEnv)
   \<and> toAuthType exampleEnv (fst (msg_read [VInt 2])) \<noteq> RfbVeyonAuthNone
   \<and> processAuthenticationMessage exampleEnv
        (clientAfterSelection exampleEnv ((exampleConnection AuthenticationTypes [1, 2])
              \<lparr>m_socket := (exampleSocket [1, 2])\<lparr>peerAddress := ''10.0.0.1''\<rparr>\<rparr>) [VInt 2]) []
       = (AuthFinishedSuccess, [])
   \<and> \<not> fst (read exampleEnv ((exampleConnection AuthenticationTypes [1, 2])
              \<lparr>m_socket := (exampleSocket [1, 2])\<lparr>peerAddress := ''10.0.0.1''\<rparr>\<rparr>))
   \<and> state (snd (read exampleEnv ((exampleConnection AuthenticationTypes [1, 2])
              \<lparr>m_socket := (exampleSocket [1, 2])\<lparr>peerAddress := ''10.0.0.1''\<rparr>\<rparr>)))
       = AccessControl
   \<and> outbuf (m_socket (snd (read exampleEnv ((exampleConnection AuthenticationTypes [1, 2])
              \<lparr>m_socket := (exampleSocket [1, 2])\<lparr>peerAddress := ''10.0.0.1''\<rparr>\<rparr>))))
       = [0, 0, 0, 0, 0]"
proof -
  let ?p = "exampleConnection AuthenticationTypes [1, 4]"
  let ?q = "(exampleConnection AuthenticationTypes [1, 2])
              \<lparr>m_socket := (exampleSocket [1, 2])\<lparr>peerAddress := ''10.0.0.1''\<rparr>\<rparr>"
  have p1: "state ?p = AuthenticationTypes"
    and p2: "receivedMessage exampleEnv ?p = Some [VInt 4]"
    and p3: "toAuthType exampleEnv (fst (msg_read [VInt 4])) \<in> set (supportedAuthTypes exampleEnv)"
    and p4: "toAuthType exampleEnv (fst (msg_read [VInt 4])) \<noteq> RfbVeyonAuthNone"
    and p5: "processAuthenticationMessage exampleEnv (clientAfterSelection exampleEnv ?p [VInt 4]) []
               = (AuthInProgress, [1, 99])"
    by (simp_all add: example_defs state_def message_defs socket_defs receivedMessage_def
        clientAfterSelection_def)
  have q1: "state ?q = AuthenticationTypes"
    and q2: "receivedMessage exampleEnv ?q = Some [VInt 2]"
    and q3: "toAuthType exampleEnv (fst (msg_read [VInt 2])) \<in> set (supportedAuthTypes exampleEnv)"
    and q4: "toAuthType exampleEnv (fst (msg_read [VInt 2])) \<noteq> RfbVeyonAuthNone"
    and q5: "processAuthenticationMessage exampleEnv (clientAfterSelection exampleEnv ?q [VInt 2]) []
               = (AuthFinishedSuccess, [])"
    by (simp_all add: example_defs state_def message_defs socket_defs receivedMessage_def
        clientAfterSelection_def)
  note p = read_AuthenticationTypes_selected [OF p1 p2 p3 p4 p5]
  note q = read_AuthenticationTypes_selected [OF q1 q2 q3 q4 q5]
  from p have p6: "\<not> fst (read exampleEnv ?p)"
    and p7: "state (snd (read exampleEnv ?p)) = Authenticating"
    by simp_all
  from q have q6: "\<not> fst (read exampleEnv ?q)"
    and q7: "state (snd (read exampleEnv ?q)) = AccessControl"
    by simp_all
  from q have "outbuf (m_socket (snd (read exampleEnv ?q)))
      = (if isOpen (m_socket ?q)
           then outbuf (m_socket ?q) @ snd (send exampleEnv []) @ []
                  @ (if AuthFinishedSuccess = AuthFinishedSuccess then qToBigEndian32 rfbVncAuthOK
                     else [])
           else outbuf (m_socket ?q))"
    by blast
  then have q8: "outbuf (m_socket (snd (read exampleEnv ?q))) = [0, 0, 0, 0, 0]"
    by (simp add: example_defs authOK_bytes)
  from p1 p2 p3 p4 p5 p6 p7 q1 q2 q3 q4 q5 q6 q7 q8 show ?thesis
    by blast
qed

subsection \<open>Phases that wait for a fixed number of bytes\<close>

text \<open>
  C3, as stated, fails: in the state \<open>Protocol\<close> with exactly twelve bytes buffered that
  are not a version banner, \<open>read\<close> returns false.
\<close>

theorem readProtocol_malformed_counterexample:
  "state (exampleConnection Protocol [88, 88, 88, 88, 88, 88, 88, 88, 88, 88, 88, 88]) = Protocol
   \<and> bytesAvailable (m_socket (exampleConnection Protocol [88, 88, 88, 88, 88, 88, 88, 88, 88, 88, 88, 88]))
        = sz_rfbProtocolVersionMsg
   \<and> fst (read exampleEnv (exampleConnection Protocol [88, 88, 88, 88, 88, 88, 88, 88, 88, 88, 88, 88]))
        = False"
  by (simp add: example_defs handler_defs socket_defs scanf_defs sz_rfbProtocolVersionMsg_def)

lemma read_Protocol_sizes:
  assumes "state p = Protocol"
  shows "(bytesAvailable (m_socket p) < sz_rfbProtocolVersionMsg \<longrightarrow> read env p = (False, p))
    \<and> (bytesAvailable (m_socket p) = sz_rfbProtocolVersionMsg
         \<and> sscanf_rfbProtocolVersionFormat (inbuf (m_socket p)) = 2 \<longrightarrow>
       fst (read env p) \<and> inbuf (m_socket (snd (read env p))) = [])
    \<and> (\<exists>k. k \<le> sz_rfbProtocolVersionMsg
          \<and> inbuf (m_socket (snd (read env p))) = drop k (inbuf (m_socket p)))"
proof (intro conjI impI)
  assume "bytesAvailable (m_socket p) < sz_rfbProtocolVersionMsg"
  with assms show "read env p = (False, p)"
    by (simp add: read_def readProtocol_def)
next
  assume a: "bytesAvailable (m_socket p) = sz_rfbProtocolVersionMsg
    \<and> sscanf_rfbProtocolVersionFormat (inbuf (m_socket p)) = 2"
  then have o: "isOpen (m_socket p)" "length (inbuf (m_socket p)) = sz_rfbProtocolVersionMsg"
    by (auto simp: socket_defs sz_rfbProtocolVersionMsg_def split: if_splits)
  with a assms show "fst (read env p)"
    by (simp add: read_def readProtocol_def sendSecurityTypes_def socket_defs)
  from a o assms show "inbuf (m_socket (snd (read env p))) = []"
    by (simp add: read_def readProtocol_def sendSecurityTypes_def socket_defs setState_def)
next
  show "\<exists>k. k \<le> sz_rfbProtocolVersionMsg
          \<and> inbuf (m_socket (snd (read env p))) = drop k (inbuf (m_socket p))"
  proof (cases "bytesAvailable (m_socket p) = sz_rfbProtocolVersionMsg")
    case True
    then have "isOpen (m_socket p)"
      by (auto simp: socket_defs sz_rfbProtocolVersionMsg_def split: if_splits)
    with True assms
    have "inbuf (m_socket (snd (read env p))) = drop sz_rfbProtocolVersionMsg (inbuf (m_socket p))"
      by (simp add: read_def readProtocol_def sendSecurityTypes_def socket_defs setState_def)
    then show ?thesis by blast
  next
    case False
    with assms have "inbuf (m_socket (snd (read env p))) = drop 0 (inbuf (m_socket p))"
      by (simp add: read_def readProtocol_def)
    then show ?thesis by blast
  qed
qed

lemma read_SecurityInit_sizes:
  assumes "state p = SecurityInit"
  shows "(bytesAvailable (m_socket p) < 1 \<longrightarrow> read env p = (False, p))
    \<and> (bytesAvailable (m_socket p) = 1 \<and> inbuf (m_socket p) = [rfbSecTypeVeyon env]
         \<and> fst (send env (authenticationTypesMessage env)) \<longrightarrow>
       fst (read env p) \<and> inbuf (m_socket (snd (read env p))) = [])
    \<and> (\<exists>k. k \<le> 1 \<and> inbuf (m_socket (snd (read env p))) = drop k (inbuf (m_socket p)))"
proof (intro conjI impI)
  assume "bytesAvailable (m_socket p) < 1"
  with assms show "read env p = (False, p)"
    by (simp add: read_def receiveSecurityTypeResponse_def)
next
  assume a: "bytesAvailable (m_socket p) = 1 \<and> inbuf (m_socket p) = [rfbSecTypeVeyon env]
         \<and> fst (send env (authenticationTypesMessage env))"
  then have o: "isOpen (m_socket p)"
    by (auto simp: socket_defs split: if_splits)
  with a assms show "fst (read env p)"
    by (simp add: read_def receiveSecurityTypeResponse_def sendAuthenticationTypes_def
        msg_send_def socket_defs case_prod_unfold Let_def authenticationTypesMessage_def)
  from a o assms show "inbuf (m_socket (snd (read env p))) = []"
    by (simp add: read_def receiveSecurityTypeResponse_def sendAuthenticationTypes_def
        msg_send_def socket_defs setState_def case_prod_unfold Let_def)
next
  show "\<exists>k. k \<le> 1 \<and> inbuf (m_socket (snd (read env p))) = drop k (inbuf (m_socket p))"
  proof (cases "1 \<le> bytesAvailable (m_socket p)")
    case True
    then have "isOpen (m_socket p)"
      by (auto simp: socket_defs split: if_splits)
    with True assms
    have "inbuf (m_socket (snd (read env p))) = drop 1 (inbuf (m_socket p))"
      by (simp add: read_def receiveSecurityTypeResponse_def sendAuthenticationTypes_def
        msg_send_def socket_defs setState_def case_prod_unfold Let_def)
    then show ?thesis by blast
  next
    case False
    with assms have "inbuf (m_socket (snd (read env p))) = drop 0 (inbuf (m_socket p))"
      by (simp add: read_def receiveSecurityTypeResponse_def)
    then show ?thesis by blast
  qed
qed

lemma read_FramebufferInit_sizes:
  assumes "state p = FramebufferInit"
  shows "(bytesAvailable (m_socket p) < sz_rfbClientInitMsg env \<longrightarrow> read env p = (False, p))
    \<and> (bytesAvailable (m_socket p) = sz_rfbClientInitMsg env \<and> isOpen (m_socket p)
         \<and> m_serverInitMessage p \<noteq> [] \<longrightarrow>
       fst (read env p) \<and> inbuf (m_socket (snd (read env p))) = [])
    \<and> (\<exists>k. k \<le> sz_rfbClientInitMsg env
          \<and> inbuf (m_socket (snd (read env p))) = drop k (inbuf (m_socket p)))"
proof (intro conjI impI)
  assume "bytesAvailable (m_socket p) < sz_rfbClientInitMsg env"
  with assms show "read env p = (False, p)"
    by (simp add: read_def processFramebufferInit_def)
next
  assume a: "bytesAvailable (m_socket p) = sz_rfbClientInitMsg env \<and> isOpen (m_socket p)
         \<and> m_serverInitMessage p \<noteq> []"
  with assms show "fst (read env p)"
    by (simp add: read_def processFramebufferInit_def)
  from a assms show "inbuf (m_socket (snd (read env p))) = []"
    by (auto simp: read_def processFramebufferInit_def socket_defs setState_def Let_def)
next
  show "\<exists>k. k \<le> sz_rfbClientInitMsg env
          \<and> inbuf (m_socket (snd (read env p))) = drop k (inbuf (m_socket p))"
  proof (cases "fst (read env p)")
    case True
    with assms
    have "inbuf (m_socket (snd (read env p)))
        = drop (if isOpen (m_socket p) then sz_rfbClientInitMsg env else 0) (inbuf (m_socket p))"
      by (auto simp: read_def processFramebufferInit_def socket_defs setState_def Let_def
          split: if_splits)
    then show ?thesis
      by (metis le0 order_refl)
  next
    case False
    with assms have "inbuf (m_socket (snd (read env p))) = drop 0 (inbuf (m_socket p))"
      by (auto simp: read_def processFramebufferInit_def split: if_splits)
    then show ?thesis by blast
  qed
qed

text \<open>
  C3, amended. In each state that waits for a fixed number of bytes (\<open>Protocol\<close>: the
  twelve bytes of the banner; \<open>SecurityInit\<close>: one byte; \<open>FramebufferInit\<close>: the size of
  the client init message), \<open>read\<close> returns false and changes nothing while fewer bytes
  are buffered; it returns true, leaving no byte unread, when exactly that number is
  buffered and the bytes are accepted (the banner parses; the byte is the advertised
  security type and sending the authentication types reports success; the server init
  message is not empty); and in every case it takes at most that number of bytes from
  the front of the buffer.
\<close>

theorem read_fixed_size_phases:
  "(state p = Protocol \<longrightarrow>
      (bytesAvailable (m_socket p) < sz_rfbProtocolVersionMsg \<longrightarrow> read env p = (False, p))
    \<and> (bytesAvailable (m_socket p) = sz_rfbProtocolVersionMsg
         \<and> sscanf_rfbProtocolVersionFormat (inbuf (m_socket p)) = 2 \<longrightarrow>
       fst (read env p) \<and> inbuf (m_socket (snd (read env p))) = [])
    \<and> (\<exists>k. k \<le> sz_rfbProtocolVersionMsg
          \<and> inbuf (m_socket (snd (read env p))) = drop k (inbuf (m_socket p))))
   \<and> (state p = SecurityInit \<longrightarrow>
      (bytesAvailable (m_socket p) < 1 \<longrightarrow> read env p = (False, p))
    \<and> (bytesAvailable (m_socket p) = 1 \<and> inbuf (m_socket p) = [rfbSecTypeVeyon env]
         \<and> fst (send env (authenticationTypesMessage env)) \<longrightarrow>
       fst (read env p) \<and> inbuf (m_socket (snd (read env p))) = [])
    \<and> (\<exists>k. k \<le> 1 \<and> inbuf (m_socket (snd (read env p))) = drop k (inbuf (m_socket p))))
   \<and> (state p = FramebufferInit \<longrightarrow>
      (bytesAvailable (m_socket p) < sz_rfbClientInitMsg env \<longrightarrow> read env p = (False, p))
    \<and> (bytesAvailable (m_socket p) = sz_rfbClientInitMsg env \<and> isOpen (m_socket p)
         \<and> m_serverInitMessage p \<noteq> [] \<longrightarrow>
       fst (read env p) \<and> inbuf (m_socket (snd (read env p))) = [])
    \<and> (\<exists>k. k \<le> sz_rfbClientInitMsg env
          \<and> inbuf (m_socket (snd (read env p))) = drop k (inbuf (m_socket p))))"
  using read_Protocol_sizes [of p env] read_SecurityInit_sizes [of p env]
    read_FramebufferInit_sizes [of p env]
  by blast

theorem read_fixed_size_phases_witness:
  "state (exampleConnection Protocol [82, 70, 66]) = Protocol
   \<and> bytesAvailable (m_socket (exampleConnection Protocol [82, 70, 66])) < sz_rfbProtocolVersionMsg
   \<and> read exampleEnv (exampleConnection Protocol [82, 70, 66])
       = (False, exampleConnection Protocol [82, 70, 66])
   \<and> state (exampleConnection Protocol [82, 70, 66, 32, 48, 48, 51, 46, 48, 48, 56, 10]) = Protocol
   \<and> bytesAvailable (m_socket (exampleConnection Protocol [82, 70, 66, 32, 48, 48, 51, 46, 48, 48, 56, 10]))
       = sz_rfbProtocolVersionMsg
   \<and> sscanf_rfbProtocolVersionFormat
        (inbuf (m_socket (exampleConnection Protocol [82, 70, 66, 32, 48, 48, 51, 46, 48, 48, 56, 10])))
       = 2
   \<and> fst (read exampleEnv (exampleConnection Protocol [82, 70, 66, 32, 48, 48, 51, 46, 48, 48, 56, 10]))
   \<and> inbuf (m_socket (snd (read exampleEnv
        (exampleConnection Protocol [82, 70, 66, 32, 48, 48, 51, 46, 48, 48, 56, 10])))) = []
   \<and> state (exampleConnection SecurityInit [40]) = SecurityInit
   \<and> bytesAvailable (m_socket (exampleConnection SecurityInit [40])) = 1
   \<and> inbuf (m_socket (exampleConnection SecurityInit [40])) = [rfbSecTypeVeyon exampleEnv]
   \<and> fst (send exampleEnv (authenticationTypesMessage exampleEnv))
   \<and> fst (read exampleEnv (exampleConnection SecurityInit [40]))
   \<and> inbuf (m_socket (snd (read exampleEnv (exampleConnection SecurityInit [40])))) = []
   \<and> state (exampleConnection FramebufferInit [0]) = FramebufferInit
   \<and> bytesAvailable (m_socket (exampleConnection FramebufferInit [0]))
       = sz_rfbClientInitMsg exampleEnv
   \<and> isOpen (m_socket (exampleConnection FramebufferInit [0]))
   \<and> m_serverInitMessage (exampleConnection FramebufferInit [0]) \<noteq> []
   \<and> fst (read exampleEnv (exampleConnection FramebufferInit [0]))
   \<and> inbuf (m_socket (snd (read exampleEnv (exampleConnection FramebufferInit [0])))) = []"
proof -
  let ?a = "exampleConnection Protocol [82, 70, 66]"
  let ?b = "exampleConnection Protocol [82, 70, 66, 32, 48, 48, 51, 46, 48, 48, 56, 10]"
  let ?c = "exampleConnection SecurityInit [40]"
  let ?d = "exampleConnection FramebufferInit [0]"
  have a1: "state ?a = Protocol"
    and a2: "bytesAvailable (m_socket ?a) < sz_rfbProtocolVersionMsg"
    by (simp_all add: example_defs state_def socket_defs sz_rfbProtocolVersionMsg_def)
  have b1: "state ?b = Protocol"
    and b2: "bytesAvailable (m_socket ?b) = sz_rfbProtocolVersionMsg"
    by (simp_all add: example_defs state_def socket_defs sz_rfbProtocolVersionMsg_def)
  have b3: "sscanf_rfbProtocolVersionFormat (inbuf (m_socket ?b)) = 2"
    by (simp add: example_defs banner_parses)
  have c1: "state ?c = SecurityInit"
    and c2: "bytesAvailable (m_socket ?c) = 1"
    and c3: "inbuf (m_socket ?c) = [rfbSecTypeVeyon exampleEnv]"
    and c4: "fst (send exampleEnv (authenticationTypesMessage exampleEnv))"
    by (simp_all add: example_defs state_def socket_defs authenticationTypesMessage_def)
  have d1: "state ?d = FramebufferInit"
    and d2: "bytesAvailable (m_socket ?d) = sz_rfbClientInitMsg exampleEnv"
    and d3: "isOpen (m_socket ?d)"
    and d4: "m_serverInitMessage ?d \<noteq> []"
    by (simp_all add: example_defs state_def socket_defs)
  from read_fixed_size_phases [of ?a exampleEnv] a1 a2
  have a3: "read exampleEnv ?a = (False, ?a)"
    by blast
  from read_fixed_size_phases [of ?b exampleEnv] b1 b2 b3
  have b4: "fst (read exampleEnv ?b)" and b5: "inbuf (m_socket (snd (read exampleEnv ?b))) = []"
    by blast+
  from read_fixed_size_phases [of ?c exampleEnv] c1 c2 c3 c4
  have c5: "fst (read exampleEnv ?c)" and c6: "inbuf (m_socket (snd (read exampleEnv ?c))) = []"
    by blast+
  from read_fixed_size_phases [of ?d exampleEnv] d1 d2 d3 d4
  have d5: "fst (read exampleEnv ?d)" and d6: "inbuf (m_socket (snd (read exampleEnv ?d))) = []"
    by blast+
  from a1 a2 a3 b1 b2 b3 b4 b5 c1 c2 c3 c4 c5 c6 d1 d2 d3 d4 d5 d6 show ?thesis
    by blast
qed

subsection \<open>Choosing no authentication\<close>

text \<open>
  C5. In the state \<open>AuthenticationTypes\<close>, when the message of the client selects the type
  \<open>None\<close> and that type is advertised, \<open>read\<close> is to set the state to \<open>AccessControl\<close> at
  once, with no exchange of authentication messages, and to record the peer address in
  the client object. The code does the first and not the second: the branch for \<open>None\<close>
  returns before the host address is set. \<open>read\<close> returns true, only takes the message
  from the socket and sets the state; nothing is written, and the client object, its
  host address included, is otherwise as it was.
\<close>

theorem read_AuthenticationTypes_None:
  assumes "state p = AuthenticationTypes"
    and "selectedAuthType env p = Some RfbVeyonAuthNone"
    and "RfbVeyonAuthNone \<in> set (supportedAuthTypes env)"
  shows "fst (read env p)
    \<and> state (snd (read env p)) = AccessControl
    \<and> outbuf (m_socket (snd (read env p))) = outbuf (m_socket p)
    \<and> isOpen (m_socket (snd (read env p))) = isOpen (m_socket p)
    \<and> authState (m_client (snd (read env p))) = authState (m_client p)
    \<and> read env p
        = (True, setState AccessControl (p\<lparr>m_socket := snd (msg_receive env (m_socket p))\<rparr>))
    \<and> m_client (snd (read env p)) = (m_client p)\<lparr>protocolState := AccessControl\<rparr>
    \<and> hostAddress (m_client (snd (read env p))) = hostAddress (m_client p)"
  using assms
  by (auto simp: read_def receiveAuthenticationTypeResponse_def selectedAuthType_def
      receivedMessage_def msg_receive_def sock_read_def setState_def state_def Let_def
      split: prod.splits option.splits if_splits)

theorem read_AuthenticationTypes_None_witness:
  "state (exampleConnection AuthenticationTypes [1, 1]) = AuthenticationTypes
   \<and> selectedAuthType exampleEnv (exampleConnection AuthenticationTypes [1, 1])
       = Some RfbVeyonAuthNone
   \<and> RfbVeyonAuthNone \<in> set (supportedAuthTypes exampleEnv)
   \<and> fst (read exampleEnv (exampleConnection AuthenticationTypes [1, 1]))
   \<and> state (snd (read exampleEnv (exampleConnection AuthenticationTypes [1, 1]))) = AccessControl
   \<and> peerAddress (m_socket (exampleConnection AuthenticationTypes [1, 1])) = ''10.0.0.7''
   \<and> hostAddress (m_client (exampleConnection AuthenticationTypes [1, 1])) = []
   \<and> hostAddress (m_client (snd (read exampleEnv (exampleConnection AuthenticationTypes [1, 1]))))
       = []"
proof -
  let ?p = "exampleConnection AuthenticationTypes [1, 1]"
  have h1: "state ?p = AuthenticationTypes"
    and h2: "selectedAuthType exampleEnv ?p = Some RfbVeyonAuthNone"
    and h3: "RfbVeyonAuthNone \<in> set (supportedAuthTypes exampleEnv)"
    by (simp_all add: example_defs state_def message_defs socket_defs selectedAuthType_def
        receivedMessage_def)
  have h4: "peerAddress (m_socket ?p) = ''10.0.0.7''"
    and h5: "hostAddress (m_client ?p) = []"
    by (simp_all add: example_defs)
  note r = read_AuthenticationTypes_None [OF h1 h2 h3]
  from r have c1: "fst (read exampleEnv ?p)"
    and c2: "state (snd (read exampleEnv ?p)) = AccessControl"
    and c3: "hostAddress (m_client (snd (read exampleEnv ?p))) = hostAddress (m_client ?p)"
    by blast+
  from c3 h5 have c4: "hostAddress (m_client (snd (read exampleEnv ?p))) = []"
    by simp
  from h1 h2 h3 h4 h5 c1 c2 c4 show ?thesis
    by blast
qed

subsection \<open>Fatal conditions\<close>

text \<open>
  C8, as stated, fails: when the client selects the advertised type 2 and the
  authentication manager fails the client on the first, empty message, the call of
  \<open>read\<close> that began in \<open>AuthenticationTypes\<close> closes the socket and returns false with
  the state at \<open>Authenticating\<close>.
\<close>

theorem read_fatal_counterexample:
  "state (exampleConnection AuthenticationTypes [1, 2]) = AuthenticationTypes
   \<and> selectedAuthType exampleEnv (exampleConnection AuthenticationTypes [1, 2])
       = Some (RfbVeyonAuthOther 2)
   \<and> RfbVeyonAuthOther 2 \<in> set (supportedAuthTypes exampleEnv)
   \<and> authState (m_client (snd (read exampleEnv (exampleConnection AuthenticationTypes [1, 2]))))
       = AuthFinishedFail
   \<and> fst (read exampleEnv (exampleConnection AuthenticationTypes [1, 2])) = False
   \<and> isOpen (m_socket (snd (read exampleEnv (exampleConnection AuthenticationTypes [1, 2]))))
       = False
   \<and> state (snd (read exampleEnv (exampleConnection AuthenticationTypes [1, 2]))) = Authenticating"
  by (simp add: example_defs handler_defs message_defs socket_defs selectedAuthType_def
      receivedMessage_def)

lemma fatal_banner:
  assumes "state p = Protocol" and "bytesAvailable (m_socket p) = sz_rfbProtocolVersionMsg"
    and "sscanf_rfbProtocolVersionFormat (inbuf (m_socket p)) \<noteq> 2"
  shows "\<not> fst (read env p) \<and> \<not> isOpen (m_socket (snd (read env p)))
    \<and> state (snd (read env p)) = Protocol"
proof -
  from assms(2) have "isOpen (m_socket p)"
    and "length (inbuf (m_socket p)) = sz_rfbProtocolVersionMsg"
    by (auto simp: socket_defs sz_rfbProtocolVersionMsg_def split: if_splits)
  with assms show ?thesis
    by (simp add: read_def readProtocol_def socket_defs state_def)
qed

lemma fatal_security_type:
  assumes "state p = SecurityInit" and "isOpen (m_socket p)"
    and "inbuf (m_socket p) = b # rest" and "b \<noteq> rfbSecTypeVeyon env"
  shows "\<not> fst (read env p) \<and> \<not> isOpen (m_socket (snd (read env p)))
    \<and> state (snd (read env p)) = SecurityInit"
  using assms by (simp add: read_def receiveSecurityTypeResponse_def socket_defs state_def)

lemma fatal_auth_type:
  assumes "state p = AuthenticationTypes" and "selectedAuthType env p = Some t"
    and "t \<notin> set (supportedAuthTypes env)"
  shows "\<not> fst (read env p) \<and> \<not> isOpen (m_socket (snd (read env p)))
    \<and> state (snd (read env p)) = AuthenticationTypes"
  using assms
  by (auto simp: read_def receiveAuthenticationTypeResponse_def selectedAuthType_def
      receivedMessage_def sock_close_def state_def Let_def
      split: prod.splits option.splits if_splits)

lemma fatal_auth_message:
  assumes "state p = Authenticating" and "receivedMessage env p = Some msg"
    and "fst (processAuthenticationMessage env (m_client p) msg) = AuthFinishedFail"
  shows "\<not> fst (read env p) \<and> \<not> isOpen (m_socket (snd (read env p)))
    \<and> state (snd (read env p)) = Authenticating"
  using assms
  by (auto simp: read_def receiveAuthenticationMessage_def processAuthentication_def
      receivedMessage_def sock_close_def state_def Let_def
      split: prod.splits option.splits if_splits)

lemma fatal_access_control:
  assumes "state p = AccessControl"
    and "accessControlState (m_client p) = AccessControlFailed
         \<or> (accessControlState (m_client p) = AccessControlInit
             \<or> accessControlState (m_client p) = AccessControlWaiting)
           \<and> (addClient env (m_client p) = AccessControlFailed
               \<or> addClient env (m_client p) = AccessControlInit)"
  shows "\<not> fst (read env p) \<and> \<not> isOpen (m_socket (snd (read env p)))
    \<and> state (snd (read env p)) = AccessControl"
  using assms
  by (auto simp: read_def processAccessControl_def sock_close_def state_def)

lemma fatal_auth_init:
  assumes "state p = AuthenticationTypes" and "selectedAuthType env p = Some t"
    and "t \<in> set (supportedAuthTypes env)" and "t \<noteq> RfbVeyonAuthNone"
    and "authState (m_client (snd (read env p))) = AuthFinishedFail"
  shows "\<not> fst (read env p) \<and> \<not> isOpen (m_socket (snd (read env p)))
    \<and> state (snd (read env p)) = Authenticating"
  using assms
  by (auto simp: read_def receiveAuthenticationTypeResponse_def processAuthentication_def
      selectedAuthType_def receivedMessage_def sock_close_def setState_def state_def Let_def
      split: prod.splits option.splits if_splits AuthState.splits)

text \<open>
  C8, amended. Each fatal condition makes the call of \<open>read\<close> that detects it close the
  socket and return false, and the state is never set to \<open>Close\<close>. For a malformed
  banner, a wrong security type, an authentication type that is not advertised, an
  authentication failure on a message received in \<open>Authenticating\<close>, and a denial of
  access, the state is left as it was when the call began. When the authentication
  manager reports failure on the first, empty message, handed to it by the call that
  received the client's choice in \<open>AuthenticationTypes\<close>, the state is left at
  \<open>Authenticating\<close>, which that call had already set.
\<close>

theorem read_fatal_conditions:
  "(state p = Protocol \<and> bytesAvailable (m_socket p) = sz_rfbProtocolVersionMsg
      \<and> sscanf_rfbProtocolVersionFormat (inbuf (m_socket p)) \<noteq> 2 \<longrightarrow>
    \<not> fst (read env p) \<and> \<not> isOpen (m_socket (snd (read env p)))
      \<and> state (snd (read env p)) = Protocol)
   \<and> (state p = SecurityInit \<and> isOpen (m_socket p) \<and> inbuf (m_socket p) = b # rest
      \<and> b \<noteq> rfbSecTypeVeyon env \<longrightarrow>
    \<not> fst (read env p) \<and> \<not> isOpen (m_socket (snd (read env p)))
      \<and> state (snd (read env p)) = SecurityInit)
   \<and> (state p = AuthenticationTypes \<and> selectedAuthType env p = Some t
      \<and> t \<notin> set (supportedAuthTypes env) \<longrightarrow>
    \<not> fst (read env p) \<and> \<not> isOpen (m_socket (snd (read env p)))
      \<and> state (snd (read env p)) = AuthenticationTypes)
   \<and> (state p = Authenticating \<and> receivedMessage env p = Some msg
      \<and> fst (processAuthenticationMessage env (m_client p) msg) = AuthFinishedFail \<longrightarrow>
    \<not> fst (read env p) \<and> \<not> isOpen (m_socket (snd (read env p)))
      \<and> state (snd (read env p)) = Authenticating)
   \<and> (state p = AccessControl
      \<and> (accessControlState (m_client p) = AccessControlFailed
         \<or> (accessControlState (m_client p) = AccessControlInit
             \<or> accessControlState (m_client p) = AccessControlWaiting)
           \<and> (addClient env (m_client p) = AccessControlFailed
               \<or> addClient env (m_client p) = AccessControlInit)) \<longrightarrow>
    \<not> fst (read env p) \<and> \<not> isOpen (m_socket (snd (read env p)))
      \<and> state (snd (read env p)) = AccessControl)
   \<and> (state p = AuthenticationTypes \<and> selectedAuthType env p = Some t
      \<and> t \<in> set (supportedAuthTypes env) \<and> t \<noteq> RfbVeyonAuthNone
      \<and> authState (m_client (snd (read env p))) = AuthFinishedFail \<longrightarrow>
    \<not> fst (read env p) \<and> \<not> isOpen (m_socket (snd (read env p)))
      \<and> state (snd (read env p)) = Authenticating)"
  using fatal_banner [of p env] fatal_security_type [of p b rest env] fatal_auth_type [of p env t]
    fatal_auth_message [of p env msg] fatal_access_control [of p env] fatal_auth_init [of p env t]
  by blast

theorem read_fatal_conditions_witness:
  "state (exampleConnection Protocol [88, 88, 88, 88, 88, 88, 88, 88, 88, 88, 88, 88]) = Protocol
   \<and> bytesAvailable (m_socket (exampleConnection Protocol [88, 88, 88, 88, 88, 88, 88, 88, 88, 88, 88, 88]))
       = sz_rfbProtocolVersionMsg
   \<and> sscanf_rfbProtocolVersionFormat
        (inbuf (m_socket (exampleConnection Protocol [88, 88, 88, 88, 88, 88, 88, 88, 88, 88, 88, 88])))
       \<noteq> 2
   \<and> \<not> isOpen (m_socket (snd (read exampleEnv
          (exampleConnection Protocol [88, 88, 88, 88, 88, 88, 88, 88, 88, 88, 88, 88]))))
   \<and> state (snd (read exampleEnv
          (exampleConnection Protocol [88, 88, 88, 88, 88, 88, 88, 88, 88, 88, 88, 88]))) = Protocol
   \<and> state (exampleConnection SecurityInit [2, 9, 9]) = SecurityInit
   \<and> isOpen (m_socket (exampleConnection SecurityInit [2, 9, 9]))
   \<and> inbuf (m_socket (exampleConnection SecurityInit [2, 9, 9])) = 2 # [9, 9]
   \<and> 2 \<noteq> rfbSecTypeVeyon exampleEnv
   \<and> \<not> isOpen (m_socket (snd (read exampleEnv (exampleConnection SecurityInit [2, 9, 9]))))
   \<and> state (snd (read exampleEnv (exampleConnection SecurityInit [2, 9, 9]))) = SecurityInit
   \<and> state (exampleConnection AuthenticationTypes [1, 9]) = AuthenticationTypes
   \<and> selectedAuthType exampleEnv (exampleConnection AuthenticationTypes [1, 9])
       = Some (RfbVeyonAuthOther 9)
   \<and> RfbVeyonAuthOther 9 \<notin> set (supportedAuthTypes exampleEnv)
   \<and> \<not> isOpen (m_socket (snd (read exampleEnv (exampleConnection AuthenticationTypes [1, 9]))))
   \<and> state (snd (read exampleEnv (exampleConnection AuthenticationTypes [1, 9])))
       = AuthenticationTypes
   \<and> state (exampleConnection Authenticating [1, 41]) = Authenticating
   \<and> receivedMessage exampleEnv (exampleConnection Authenticating [1, 41]) = Some [VInt 41]
   \<and> fst (processAuthenticationMessage exampleEnv
             (m_client (exampleConnection Authenticating [1, 41])) [VInt 41]) = AuthFinishedFail
   \<and> \<not> isOpen (m_socket (snd (read exampleEnv (exampleConnection Authenticating [1, 41]))))
   \<and> state (snd (read exampleEnv (exampleConnection Authenticating [1, 41]))) = Authenticating
   \<and> state ((exampleConnection AccessControl [])
              \<lparr>m_client := (exampleClient AccessControl)\<lparr>hostAddress := ''10.0.0.66''\<rparr>\<rparr>)
       = AccessControl
   \<and> accessControlState (m_client ((exampleConnection AccessControl [])
              \<lparr>m_client := (exampleClient AccessControl)\<lparr>hostAddress := ''10.0.0.66''\<rparr>\<rparr>))
       = AccessControlInit
   \<and> addClient exampleEnv (m_client ((exampleConnection AccessControl [])
              \<lparr>m_client := (exampleClient AccessControl)\<lparr>hostAddress := ''10.0.0.66''\<rparr>\<rparr>))
       = AccessControlFailed
   \<and> \<not> isOpen (m_socket (snd (read exampleEnv ((exampleConnection AccessControl [])
              \<lparr>m_client := (exampleClient AccessControl)\<lparr>hostAddress := ''10.0.0.66''\<rparr>\<rparr>))))
   \<and> state (snd (read exampleEnv ((exampleConnection AccessControl [])
              \<lparr>m_client := (exampleClient AccessControl)\<lparr>hostAddress := ''10.0.0.66''\<rparr>\<rparr>)))
       = AccessControl
   \<and> state (exampleConnection AuthenticationTypes [1, 2]) = AuthenticationTypes
   \<and> selectedAuthType exampleEnv (exampleConnection AuthenticationTypes [1, 2])
       = Some (RfbVeyonAuthOther 2)
   \<and> RfbVeyonAuthOther 2 \<in> set (supportedAuthTypes exampleEnv)
   \<and> RfbVeyonAuthOther 2 \<noteq> RfbVeyonAuthNone
   \<and> authState (m_client (snd (read exampleEnv (exampleConnection AuthenticationTypes [1, 2]))))
       = AuthFinishedFail
   \<and> \<not> fst (read exampleEnv (exampleConnection AuthenticationTypes [1, 2]))
   \<and> \<not> isOpen (m_socket (snd (read exampleEnv (exampleConnection AuthenticationTypes [1, 2]))))
   \<and> state (snd (read exampleEnv (exampleConnection AuthenticationTypes [1, 2]))) = Authenticating"
proof -
  let ?a = "exampleConnection Protocol [88, 88, 88, 88, 88, 88, 88, 88, 88, 88, 88, 88]"
  let ?b = "exampleConnection SecurityInit [2, 9, 9]"
  let ?c = "exampleConnection AuthenticationTypes [1, 9]"
  let ?d = "exampleConnection Authenticating [1, 41]"
  let ?e = "(exampleConnection AccessControl [])
              \<lparr>m_client := (exampleClient AccessControl)\<lparr>hostAddress := ''10.0.0.66''\<rparr>\<rparr>"
  let ?f = "exampleConnection AuthenticationTypes [1, 2]"
  have a1: "state ?a = Protocol"
    and a2: "bytesAvailable (m_socket ?a) = sz_rfbProtocolVersionMsg"
    and a3: "sscanf_rfbProtocolVersionFormat (inbuf (m_socket ?a)) \<noteq> 2"
    by (simp_all add: example_defs state_def socket_defs scanf_defs sz_rfbProtocolVersionMsg_def)
  have b1: "state ?b = SecurityInit" and b2: "isOpen (m_socket ?b)"
    and b3: "inbuf (m_socket ?b) = 2 # [9, 9]" and b4: "2 \<noteq> rfbSecTypeVeyon exampleEnv"
    by (simp_all add: example_defs state_def)
  have c1: "state ?c = AuthenticationTypes"
    and c2: "selectedAuthType exampleEnv ?c = Some (RfbVeyonAuthOther 9)"
    and c3: "RfbVeyonAuthOther 9 \<notin> set (supportedAuthTypes exampleEnv)"
    by (simp_all add: example_defs state_def message_defs socket_defs selectedAuthType_def
        receivedMessage_def)
  have d1: "state ?d = Authenticating"
    and d2: "receivedMessage exampleEnv ?d = Some [VInt 41]"
    and d3: "fst (processAuthenticationMessage exampleEnv (m_client ?d) [VInt 41])
               = AuthFinishedFail"
    by (simp_all add: example_defs state_def message_defs socket_defs receivedMessage_def)
  have e1: "state ?e = AccessControl"
    and e2: "accessControlState (m_client ?e) = AccessControlInit"
    and e3: "addClient exampleEnv (m_client ?e) = AccessControlFailed"
    by (simp_all add: example_defs state_def)
  have f1: "state ?f = AuthenticationTypes"
    and f2: "selectedAuthType exampleEnv ?f = Some (RfbVeyonAuthOther 2)"
    and f3: "RfbVeyonAuthOther 2 \<in> set (supportedAuthTypes exampleEnv)"
    and f4: "RfbVeyonAuthOther 2 \<noteq> RfbVeyonAuthNone"
    and f5: "authState (m_client (snd (read exampleEnv ?f))) = AuthFinishedFail"
    by (simp_all add: example_defs handler_defs message_defs socket_defs selectedAuthType_def
        receivedMessage_def)
  from read_fatal_conditions [of ?a exampleEnv] a1 a2 a3
  have a4: "\<not> isOpen (m_socket (snd (read exampleEnv ?a)))"
    and a5: "state (snd (read exampleEnv ?a)) = Protocol"
    by blast+
  from read_fatal_conditions [of ?b exampleEnv 2 "[9, 9]"] b1 b2 b3 b4
  have b5: "\<not> isOpen (m_socket (snd (read exampleEnv ?b)))"
    and b6: "state (snd (read exampleEnv ?b)) = SecurityInit"
    by blast+
  from read_fatal_conditions [of ?c exampleEnv _ _ "RfbVeyonAuthOther 9"] c1 c2 c3
  have c4: "\<not> isOpen (m_socket (snd (read exampleEnv ?c)))"
    and c5: "state (snd (read exampleEnv ?c)) = AuthenticationTypes"
    by blast+
  from read_fatal_conditions [of ?d exampleEnv _ _ _ "[VInt 41]"] d1 d2 d3
  have d4: "\<not> isOpen (m_socket (snd (read exampleEnv ?d)))"
    and d5: "state (snd (read exampleEnv ?d)) = Authenticating"
    by blast+
  from read_fatal_conditions [of ?e exampleEnv] e1 e2 e3
  have e4: "\<not> isOpen (m_socket (snd (read exampleEnv ?e)))"
    and e5: "state (snd (read exampleEnv ?e)) = AccessControl"
    by blast+
  from read_fatal_conditions [of ?f exampleEnv _ _ "RfbVeyonAuthOther 2"] f1 f2 f3 f4 f5
  have f6: "\<not> fst (read exampleEnv ?f)"
    and f7: "\<not> isOpen (m_socket (snd (read exampleEnv ?f)))"
    and f8: "state (snd (read exampleEnv ?f)) = Authenticating"
    by blast+
  from a1 a2 a3 a4 a5 b1 b2 b3 b4 b5 b6 c1 c2 c3 c4 c5 d1 d2 d3 d4 d5
    e1 e2 e3 e4 e5 f1 f2 f3 f4 f5 f6 f7 f8
  show ?thesis
    by blast
qed

end
